theory Spec2Isabelle
  imports Complex_Main "HOL-Library.Sublist" "HOL-Library.Monad_Syntax"
begin

section \<open>MIRA chat assistant: a shallow embedding of \<open>index.tsx\<close>\<close>

text \<open>
  The repository holds two versions of the page script: \<open>index.tsx\<close>, with the reminders
  list, and an unnamed file without it, whose \<open>sendMessageToMira\<close> and
  \<open>recognition.onerror\<close> differ. Functions that exist in both with the same text are
  modelled once; the two that differ carry the suffix \<open>_part_000\<close> for the unnamed file.

  The page is a set of event handlers over a handful of module-level variables, three
  browser services (the DOM, \<open>speechSynthesis\<close>, \<open>SpeechRecognition\<close>), the
  browser's \<open>localStorage\<close> and one remote chat session. The embedding makes the
  module-level variables and the observable part of each service the fields of one record,
  and each handler a function from state to state.

  Strings are \<^typ>\<open>string\<close>: a JavaScript string is a sequence of 16-bit code units, a
  \<^typ>\<open>char\<close> holds the code units \<open>0x00..0xFF\<close> (Latin-1) only. The trigger phrase,
  the JSON punctuation and every fixed message are ASCII. Outside Latin-1 the only code units
  that \<open>toLowerCase\<close> maps onto ASCII letters are U+212A (to \<open>k\<close>) and U+0130 (to
  \<open>i\<close> followed by U+0307), and neither can produce a prefix \<open>remind me to\<close>.
\<close>

subsection \<open>String primitives of the platform\<close>

text \<open>\<open>String.prototype.trim\<close>: strips WhiteSpace and LineTerminator code units from both
  ends; in the 8-bit range these are TAB, LF, VT, FF, CR, SP and NBSP.\<close>

definition isWhiteSpace :: "char \<Rightarrow> bool" where
  "isWhiteSpace c = (of_char c \<in> {9, 10, 11, 12, 13, 32, 160 :: nat})"

definition trim :: "string \<Rightarrow> string" where
  "trim s = rev (dropWhile isWhiteSpace (rev (dropWhile isWhiteSpace s)))"

text \<open>\<open>String.prototype.toLowerCase\<close> on Latin-1: \<open>A..Z\<close> and U+00C0..U+00DE
  (except the multiplication sign U+00D7) move up by 32, everything else is unchanged.\<close>

definition toLowerCase_char :: "char \<Rightarrow> char" where
  "toLowerCase_char c =
     (let n = of_char c :: nat
      in if (65 \<le> n \<and> n \<le> 90) \<or> (192 \<le> n \<and> n \<le> 222 \<and> n \<noteq> 215)
         then char_of (n + 32) else c)"

definition toLowerCase :: "string \<Rightarrow> string" where
  "toLowerCase s = map toLowerCase_char s"

definition startsWith :: "string \<Rightarrow> string \<Rightarrow> bool" where
  "startsWith s searchString = (take (length searchString) s = searchString)"

text \<open>\<open>s.substring(start)\<close> for \<open>0 \<le> start\<close>; a start beyond the end gives the empty
  string, as \<^const>\<open>drop\<close> does.\<close>

definition substring :: "string \<Rightarrow> nat \<Rightarrow> string" where
  "substring s start = drop start s"

subsection \<open>\<open>JSON.stringify\<close> on a reminders array\<close>

text \<open>A \<open>Reminder\<close> is \<open>{id: number; text: string}\<close>. The id is \<open>Date.now()\<close>, an
  integer number of milliseconds, so it is an \<^typ>\<open>int\<close> here. An \<^typ>\<open>int\<close> stands
  for the JavaScript number of the same value; all such numbers are exact up to
  \<open>2^53 - 1\<close> in absolute value (\<open>Number.isSafeInteger\<close>), which covers every value
  \<open>Date.now()\<close> can return (at most \<open>8.64 * 10^15\<close>). The record has no place for the
  order of the two properties: a \<open>Reminder\<close> object made by \<open>addReminder\<close> has \<open>id\<close>
  first.\<close>

record Reminder =
  reminder_id :: int
  reminder_text :: string

definition isSafeInteger :: "int \<Rightarrow> bool" where
  "isSafeInteger i = (\<bar>i\<bar> \<le> 9007199254740991)"

definition safe_ids :: "Reminder list \<Rightarrow> bool" where
  "safe_ids rs = list_all (\<lambda>r. isSafeInteger (reminder_id r)) rs"

definition hex_digit :: "nat \<Rightarrow> char" where
  "hex_digit n = ''0123456789abcdef'' ! (n mod 16)"

text \<open>QuoteJSONString of ECMA-262: the seven short escapes, \<open>\\u00xx\<close> for the other
  control characters, every other code unit as it is.\<close>

definition escape_char :: "char \<Rightarrow> string" where
  \<open>escape_char c =
     (let n = of_char c :: nat
      in if n = 8 then [CHR 0x5C, CHR ''b'']
         else if n = 9 then [CHR 0x5C, CHR ''t'']
         else if n = 10 then [CHR 0x5C, CHR ''n'']
         else if n = 12 then [CHR 0x5C, CHR ''f'']
         else if n = 13 then [CHR 0x5C, CHR ''r'']
         else if n = 34 then [CHR 0x5C, CHR 0x22]
         else if n = 92 then [CHR 0x5C, CHR 0x5C]
         else if n < 32 then [CHR 0x5C, CHR ''u'', CHR ''0'', CHR ''0'',
                              hex_digit (n div 16), hex_digit (n mod 16)]
         else [c])\<close>

definition QuoteJSONString :: "string \<Rightarrow> string" where
  \<open>QuoteJSONString s = CHR 0x22 # concat (map escape_char s) @ [CHR 0x22]\<close>

fun digits :: "nat \<Rightarrow> string" where
  "digits n =
     (if n < 10 then [char_of (48 + n)]
      else digits (n div 10) @ [char_of (48 + n mod 10)])"

declare digits.simps [simp del]

text \<open>\<open>Number::toString\<close> on a safe integer: plain decimal digits, with a minus sign for
  a negative one.\<close>

definition Number_toString :: "int \<Rightarrow> string" where
  "Number_toString i = (if i < 0 then CHR ''-'' # digits (nat (- i)) else digits (nat i))"

definition stringify_Reminder :: "Reminder \<Rightarrow> string" where
  \<open>stringify_Reminder r =
     ''{"id":'' @ Number_toString (reminder_id r) @
     '',"text":'' @ QuoteJSONString (reminder_text r) @ ''}''\<close>

fun stringify_elements :: "Reminder list \<Rightarrow> string" where
  "stringify_elements [] = []"
| "stringify_elements [r] = stringify_Reminder r"
| "stringify_elements (r # rs) = stringify_Reminder r @ '','' @ stringify_elements rs"

definition JSON_stringify :: "Reminder list \<Rightarrow> string" where
  "JSON_stringify rs = ''['' @ stringify_elements rs @ '']''"

subsection \<open>State\<close>

datatype sender = user | mira

text \<open>A child of \<open>#chat-history\<close>: a message \<open>div\<close> with its sender class and text
  content, or the loading indicator.\<close>

datatype element = message sender string | loading

text \<open>What \<open>speak\<close> hands to the synthesiser.\<close>

record SpeechSynthesisUtterance =
  utterance_text :: string
  rate :: real
  pitch :: real
  volume :: real

text \<open>A call the page makes on \<open>synth\<close>, on \<open>recognition\<close> or on the remote
  \<open>chat\<close> session. The state keeps one trace of them, so their order is observable.\<close>

datatype call =
    synth_cancel
  | synth_speak SpeechSynthesisUtterance
  | recognition_start
  | recognition_stop
  | chat_sendMessage string

text \<open>What \<open>renderReminders\<close> leaves in \<open>#reminders-list\<close>: the markup assigned to the
  list's own \<open>innerHTML\<close>, or one \<open>li\<close> per reminder, each given by the markup assigned
  to its \<open>innerHTML\<close>. The model keeps the markup as the source writes it; how the browser
  parses it (markup inside a reminder's text included) is not modelled.\<close>

datatype list_content = innerHTML string | li_children "string list"

datatype error = RemoteError string | QuotaExceededError

text \<open>
  The module-level variables (\<open>isListening\<close>, \<open>isSpeaking\<close>,
  \<open>loadingMessageElement\<close> as the flag "is not null", \<open>reminders\<close>), the DOM the
  handlers write, \<open>localStorage\<close>, and the calls made so far, oldest first.
  \<open>localStorage.setItem\<close> throws when the browser cannot store the value (quota
  reached, storage disabled); \<open>localStorage_accepts s key value\<close> tells whether the write
  of \<open>value\<close> under \<open>key\<close> succeeds in state \<open>s\<close>, and \<open>QuotaExceededError\<close> is
  the model's name for whatever \<open>setItem\<close> throws otherwise.
  \<open>console.error\<close> and \<open>console.warn\<close> write to the developer console only and
  are left out.
\<close>

record app =
  isListening :: bool
  isSpeaking :: bool
  loadingMessageElement :: bool
  reminders :: "Reminder list"
  chatHistory :: "element list"
  chatInput_value :: string
  slowModeToggle_checked :: bool
  micButton_listening :: bool
  remindersContainer_hidden :: bool
  remindersList :: list_content
  localStorage :: "string \<rightharpoonup> string"
  localStorage_accepts :: "string \<Rightarrow> string \<Rightarrow> bool"
  calls :: "call list"

text \<open>A fresh page load over the given persisted storage: the initial values of the
  module-level variables, an empty transcript and no call made yet. The initial DOM values
  (checkbox unchecked, reminders panel hidden, list empty) come from the page's markup; no
  property below depends on them.\<close>

definition fresh_session :: "(string \<rightharpoonup> string) \<Rightarrow> (string \<Rightarrow> string \<Rightarrow> bool) \<Rightarrow> app" where
  "fresh_session store accepts =
     \<lparr> isListening = False, isSpeaking = False, loadingMessageElement = False,
       reminders = [], chatHistory = [], chatInput_value = [],
       slowModeToggle_checked = False, micButton_listening = False,
       remindersContainer_hidden = True, remindersList = innerHTML [],
       localStorage = store, localStorage_accepts = accepts, calls = [] \<rparr>"

text \<open>
  A function that can throw returns \<open>Inl (e, s)\<close> when it throws \<open>e\<close>, where \<open>s\<close>
  is the state at that moment: what the function did before the \<open>throw\<close> stays done.
  \<open>state_after\<close> is the state the page is left in, either way.
\<close>

type_synonym result = "error \<times> app + app"

definition state_after :: "result \<Rightarrow> app" where
  "state_after r = (case r of Inl (e, s) \<Rightarrow> s | Inr s \<Rightarrow> s)"

subsection \<open>Core functions\<close>

definition appendMessage :: "string \<Rightarrow> sender \<Rightarrow> app \<Rightarrow> app" where
  "appendMessage txt sndr s = s\<lparr>chatHistory := chatHistory s @ [message sndr txt]\<rparr>"

definition showLoadingIndicator :: "app \<Rightarrow> app" where
  "showLoadingIndicator s =
     (if loadingMessageElement s then s
      else s\<lparr>loadingMessageElement := True, chatHistory := chatHistory s @ [loading]\<rparr>)"

text \<open>\<open>loadingMessageElement.remove()\<close> takes the indicator out of \<open>#chat-history\<close>;
  \<open>showLoadingIndicator\<close> never adds a second one while the first is there.\<close>

definition hideLoadingIndicator :: "app \<Rightarrow> app" where
  "hideLoadingIndicator s =
     (if loadingMessageElement s
      then s\<lparr>chatHistory := remove1 loading (chatHistory s), loadingMessageElement := False\<rparr>
      else s)"

definition speak :: "string \<Rightarrow> app \<Rightarrow> app" where
  "speak txt s =
     (let s1 = (if isSpeaking s then s\<lparr>calls := calls s @ [synth_cancel]\<rparr> else s);
          utterance = \<lparr> utterance_text = txt,
                        rate = (if slowModeToggle_checked s1 then 0.8 else 1.0),
                        pitch = 1.0, volume = 1.0 \<rparr>
      in s1\<lparr>calls := calls s1 @ [synth_speak utterance]\<rparr>)"

text \<open>The utterance's \<open>onstart\<close> and \<open>onend\<close> callbacks.\<close>

definition utterance_onstart :: "app \<Rightarrow> app" where
  "utterance_onstart s = s\<lparr>isSpeaking := True\<rparr>"

definition utterance_onend :: "app \<Rightarrow> app" where
  "utterance_onend s = s\<lparr>isSpeaking := False\<rparr>"

subsection \<open>Reminder functions\<close>

text \<open>\<open>localStorage.setItem\<close>: stores the value, or throws and stores nothing.\<close>

definition setItem :: "string \<Rightarrow> string \<Rightarrow> app \<Rightarrow> result" where
  "setItem key val s =
     (if localStorage_accepts s key val
      then Inr (s\<lparr>localStorage := (localStorage s)(key \<mapsto> val)\<rparr>)
      else Inl (QuotaExceededError, s))"

definition saveReminders :: "app \<Rightarrow> result" where
  "saveReminders s = setItem ''reminders'' (JSON_stringify (reminders s)) s"

text \<open>The template literal assigned to the \<open>innerHTML\<close> of a reminder's \<open>li\<close>, line
  breaks and indentation included.\<close>

definition li_innerHTML :: "Reminder \<Rightarrow> string" where
  \<open>li_innerHTML reminder =
     [CHR 0x0A] @ ''      <span>'' @ reminder_text reminder @ ''</span>'' @
     [CHR 0x0A] @ ''      <button class="delete-reminder-btn" data-id="'' @
     Number_toString (reminder_id reminder) @ ''">&times;</button>'' @
     [CHR 0x0A] @ ''    ''\<close>

definition renderReminders :: "app \<Rightarrow> app" where
  "renderReminders s =
     (if length (reminders s) = 0
      then s\<lparr>remindersList := innerHTML ''<p>You have no reminders.</p>''\<rparr>
      else s\<lparr>remindersList := li_children (map li_innerHTML (reminders s))\<rparr>)"

text \<open>\<open>now\<close> is the value \<open>Date.now()\<close> returns during the call. The new reminder is
  pushed before \<open>saveReminders\<close> runs; when that throws, nothing catches it and the list
  is not rendered.\<close>

definition addReminder :: "int \<Rightarrow> string \<Rightarrow> app \<Rightarrow> result" where
  "addReminder now txt s =
     (let newReminder = \<lparr> reminder_id = now, reminder_text = txt \<rparr>;
          s1 = s\<lparr>reminders := reminders s @ [newReminder]\<rparr>
      in case saveReminders s1 of
           Inl thrown \<Rightarrow> Inl thrown
         | Inr s2 \<Rightarrow> Inr (renderReminders s2))"

definition deleteReminder :: "int \<Rightarrow> app \<Rightarrow> result" where
  "deleteReminder i s =
     (let s1 = s\<lparr>reminders := filter (\<lambda>reminder. reminder_id reminder \<noteq> i) (reminders s)\<rparr>
      in case saveReminders s1 of
           Inl thrown \<Rightarrow> Inl thrown
         | Inr s2 \<Rightarrow> Inr (renderReminders s2))"

subsection \<open>\<open>JSON.parse\<close> on the text of a reminders array\<close>

text \<open>
  \<open>JSON_parse\<close> models \<open>JSON.parse\<close> on a fragment of JSON: an array of objects that
  have exactly the two members \<open>"id"\<close> and \<open>"text"\<close>, in this order and with the keys
  written without escapes, where the id is an integer literal that denotes a safe integer and
  the text is a string whose code units are below \<open>0x100\<close>; insignificant whitespace is
  allowed wherever JSON allows it. On such a text \<open>JSON_parse\<close> gives \<open>Some\<close> of the
  list \<open>JSON.parse\<close> returns.

  On every other text the result is \<open>None\<close>, which says nothing about the source: there
  \<open>JSON.parse\<close> throws a \<open>SyntaxError\<close>, or returns a value for which this model has no
  state (another shape, a number that is not a safe integer, other or further members; also
  the same two members in the other order, since the object \<open>JSON.parse\<close> builds keeps the
  order of its properties and \<open>JSON.stringify\<close> would write them back in that order).
\<close>

text \<open>JSON whitespace: space, tab, line feed, carriage return.\<close>

definition isJSONWhiteSpace :: "char \<Rightarrow> bool" where
  "isJSONWhiteSpace c = (of_char c \<in> {9, 10, 13, 32 :: nat})"

definition skip_ws :: "string \<Rightarrow> string" where
  "skip_ws s = dropWhile isJSONWhiteSpace s"

definition expect :: "string \<Rightarrow> string \<Rightarrow> string option" where
  "expect lit s = (if startsWith s lit then Some (drop (length lit) s) else None)"

text \<open>A punctuation mark or a key, after optional whitespace.\<close>

definition token :: "string \<Rightarrow> string \<Rightarrow> string option" where
  "token lit s = expect lit (skip_ws s)"

definition isDigit :: "char \<Rightarrow> bool" where
  "isDigit c = (48 \<le> (of_char c :: nat) \<and> (of_char c :: nat) \<le> 57)"

definition digits_value :: "string \<Rightarrow> nat" where
  "digits_value ds = foldl (\<lambda>acc c. 10 * acc + (of_char c - 48)) 0 ds"

text \<open>The digits of an integer literal: at least one, and no leading zero.\<close>

definition parse_unsigned :: "string \<Rightarrow> (nat \<times> string) option" where
  "parse_unsigned s =
     (let ds = takeWhile isDigit s
      in if ds = [] \<or> (1 < length ds \<and> hd ds = CHR ''0'') then None
         else Some (digits_value ds, dropWhile isDigit s))"

text \<open>An integer literal that denotes a safe integer. A fraction or an exponent after it
  makes the element fail at the comma that must follow. The literal \<open>-0\<close> denotes
  JavaScript's negative zero, which no \<^typ>\<open>int\<close> stands for.\<close>

definition parse_number :: "string \<Rightarrow> (int \<times> string) option" where
  "parse_number s =
     (case s of
        [] \<Rightarrow> None
      | c # cs \<Rightarrow>
          if c = CHR ''-'' then
            (case parse_unsigned cs of
               None \<Rightarrow> None
             | Some (n, rest) \<Rightarrow>
                 if n = 0 \<or> \<not> isSafeInteger (- int n) then None else Some (- int n, rest))
          else
            (case parse_unsigned s of
               None \<Rightarrow> None
             | Some (n, rest) \<Rightarrow>
                 if isSafeInteger (int n) then Some (int n, rest) else None))"

definition hex_value :: "char \<Rightarrow> nat option" where
  "hex_value c =
     (let n = of_char c :: nat
      in if 48 \<le> n \<and> n \<le> 57 then Some (n - 48)
         else if 97 \<le> n \<and> n \<le> 102 then Some (n - 87)
         else if 65 \<le> n \<and> n \<le> 70 then Some (n - 55)
         else None)"

text \<open>The code unit of \<open>\\uXXXX\<close>; one above \<open>0xFF\<close> is outside the 8-bit strings.\<close>

definition unicode_escape :: "char \<Rightarrow> char \<Rightarrow> char \<Rightarrow> char \<Rightarrow> char option" where
  "unicode_escape a b c d =
     (case (hex_value a, hex_value b, hex_value c, hex_value d) of
        (Some h3, Some h2, Some h1, Some h0) \<Rightarrow>
          if h3 = 0 \<and> h2 = 0 then Some (char_of (16 * h1 + h0)) else None
      | _ \<Rightarrow> None)"

definition short_escape :: "char \<Rightarrow> char option" where
  \<open>short_escape e =
     (if e = CHR 0x22 then Some (CHR 0x22)
      else if e = CHR 0x5C then Some (CHR 0x5C)
      else if e = CHR ''/'' then Some (CHR ''/'')
      else if e = CHR ''b'' then Some (CHR 0x08)
      else if e = CHR ''f'' then Some (CHR 0x0C)
      else if e = CHR ''n'' then Some (CHR 0x0A)
      else if e = CHR ''r'' then Some (CHR 0x0D)
      else if e = CHR ''t'' then Some (CHR 0x09)
      else None)\<close>

definition cons_char :: "char \<Rightarrow> (string \<times> string) option \<Rightarrow> (string \<times> string) option" where
  "cons_char c r = map_option (\<lambda>(t, rest). (c # t, rest)) r"

text \<open>The characters of a JSON string after its opening quote, up to and including the
  closing quote; returns the decoded string and the text after it.\<close>

fun parse_chars :: "string \<Rightarrow> (string \<times> string) option" where
  "parse_chars [] = None"
| "parse_chars (c # cs) =
     (if c = CHR 0x22 then Some ([], cs)
      else if c = CHR 0x5C then
        (case cs of
           [] \<Rightarrow> None
         | e # cs1 \<Rightarrow>
             if e = CHR ''u'' then
               (case cs1 of
                  h3 # h2 # h1 # h0 # cs2 \<Rightarrow>
                    (case unicode_escape h3 h2 h1 h0 of
                       None \<Rightarrow> None
                     | Some u \<Rightarrow> cons_char u (parse_chars cs2))
                | _ \<Rightarrow> None)
             else
               (case short_escape e of
                  None \<Rightarrow> None
                | Some u \<Rightarrow> cons_char u (parse_chars cs1)))
      else if (of_char c :: nat) < 32 then None
      else cons_char c (parse_chars cs))"

text \<open>One element: \<open>{"id": number, "text": string}\<close>.\<close>

definition parse_Reminder :: "string \<Rightarrow> (Reminder \<times> string) option" where
  \<open>parse_Reminder s =
     do {
       s1 \<leftarrow> token ''{'' s;
       s2 \<leftarrow> token ''"id"'' s1;
       s3 \<leftarrow> token '':'' s2;
       (i, s4) \<leftarrow> parse_number (skip_ws s3);
       s5 \<leftarrow> token '','' s4;
       s6 \<leftarrow> token ''"text"'' s5;
       s7 \<leftarrow> token '':'' s6;
       s8 \<leftarrow> token ''"'' s7;
       (t, s9) \<leftarrow> parse_chars s8;
       s10 \<leftarrow> token ''}'' s9;
       Some (\<lparr> reminder_id = i, reminder_text = t \<rparr>, s10)
     }\<close>

lemma skip_ws_length: "length (skip_ws s) \<le> length s"
  by (simp add: skip_ws_def length_dropWhile_le)

lemma expect_length: "expect lit s = Some rest \<Longrightarrow> length rest + length lit = length s"
  by (auto simp: expect_def startsWith_def split: if_splits)
    (metis add.commute append_take_drop_id length_append length_drop)

lemma token_length: "token lit s = Some rest \<Longrightarrow> length rest + length lit \<le> length s"
  using expect_length [of lit "skip_ws s" rest] skip_ws_length [of s]
  by (simp add: token_def)

lemma parse_unsigned_length: "parse_unsigned s = Some (n, rest) \<Longrightarrow> length rest \<le> length s"
  by (auto simp: parse_unsigned_def Let_def length_dropWhile_le split: if_splits)

lemma parse_number_length: "parse_number s = Some (i, rest) \<Longrightarrow> length rest \<le> length s"
  by (auto simp: parse_number_def split: list.splits if_splits option.splits
      dest!: parse_unsigned_length)

lemma parse_chars_length: "parse_chars s = Some (t, rest) \<Longrightarrow> length rest < length s"
  by (induction s arbitrary: t rest rule: parse_chars.induct)
    (auto simp: cons_char_def split: if_splits list.splits option.splits, fastforce+)

lemma parse_Reminder_length:
  assumes "parse_Reminder s = Some (r, rest)"
  shows "length rest < length s"
proof -
  from assms obtain s1 s2 s3 i s4 s5 s6 s7 s8 t s9 where
    t1: "token ''{'' s = Some s1" and t2: \<open>token ''"id"'' s1 = Some s2\<close> and
    t3: "token '':'' s2 = Some s3" and n: "parse_number (skip_ws s3) = Some (i, s4)" and
    t5: "token '','' s4 = Some s5" and t6: \<open>token ''"text"'' s5 = Some s6\<close> and
    t7: "token '':'' s6 = Some s7" and t8: \<open>token ''"'' s7 = Some s8\<close> and
    c: "parse_chars s8 = Some (t, s9)" and t10: "token ''}'' s9 = Some rest"
    by (auto simp: parse_Reminder_def split: bind_splits)
  from token_length [OF t1] token_length [OF t2] token_length [OF t3]
    parse_number_length [OF n] skip_ws_length [of s3]
    token_length [OF t5] token_length [OF t6] token_length [OF t7] token_length [OF t8]
    parse_chars_length [OF c] token_length [OF t10]
  show ?thesis by simp
qed

text \<open>The elements of a non-empty array, after the opening bracket, up to the closing
  bracket, after which only whitespace may follow.\<close>

function parse_elements :: "string \<Rightarrow> Reminder list option" where
  "parse_elements s =
     (case parse_Reminder s of
        None \<Rightarrow> None
      | Some (r, rest) \<Rightarrow>
          (case skip_ws rest of
             [] \<Rightarrow> None
           | c # rest1 \<Rightarrow>
               if c = CHR '']'' then (if skip_ws rest1 = [] then Some [r] else None)
               else if c = CHR '','' then map_option ((#) r) (parse_elements rest1)
               else None))"
  by pat_completeness auto
termination
proof (relation "measure length")
  fix s x2 r rest c rest1
  assume "parse_Reminder s = Some x2" "(r, rest) = x2" "skip_ws rest = c # rest1"
  then have "length rest < length s" "length (c # rest1) \<le> length rest"
    using parse_Reminder_length [of s r rest] skip_ws_length [of rest] by auto
  then show "(rest1, s) \<in> measure length" by simp
qed simp

declare parse_elements.simps [simp del]

definition JSON_parse :: "string \<Rightarrow> Reminder list option" where
  "JSON_parse s =
     (case token ''['' s of
        None \<Rightarrow> None
      | Some s1 \<Rightarrow>
          (case token '']'' s1 of
             Some s2 \<Rightarrow> if skip_ws s2 = [] then Some [] else None
           | None \<Rightarrow> parse_elements s1))"

subsection \<open>Loading the persisted reminders\<close>

text \<open>\<open>getItem\<close> gives \<open>null\<close> for an absent key; \<open>null\<close> and the empty string are
  falsy, and then nothing is loaded. Otherwise the stored text goes through \<open>JSON.parse\<close>,
  uncaught and unchecked: the result of \<open>loadReminders\<close> is \<open>None\<close> where
  \<open>JSON_parse\<close> says nothing about the text.\<close>

definition loadReminders :: "app \<Rightarrow> app option" where
  "loadReminders s =
     (case localStorage s ''reminders'' of
        None \<Rightarrow> Some s
      | Some storedReminders \<Rightarrow>
          if storedReminders = [] then Some s
          else (case JSON_parse storedReminders of
                  None \<Rightarrow> None
                | Some parsed \<Rightarrow> Some (renderReminders (s\<lparr>reminders := parsed\<rparr>))))"

subsection \<open>\<open>sendMessageToMira\<close>\<close>

text \<open>
  \<open>sendMessageToMira\<close> is an \<open>async\<close> function with one \<open>await\<close>. Before it, the
  function returns (\<open>Returned\<close>), or throws, which rejects its promise (\<open>Rejected\<close>), or
  makes the call \<open>chat.sendMessage({message})\<close> and is suspended until that promise
  settles (\<open>Awaiting\<close>, with the message sent); other handlers may run in between. The
  part after the \<open>await\<close> is \<open>sendMessageToMira_resume\<close>, which takes how the promise
  settled (\<open>Inl\<close>: rejected, \<open>Inr\<close>: the \<open>text\<close> of the response) and the state at that
  moment.
\<close>

datatype 'a async =
    Returned (state_of: 'a)
  | Rejected (reason: error) (state_of: 'a)
  | Awaiting (awaited: string) (state_of: 'a)

text \<open>\<open>try { body } catch (error) { handler }\<close>: the handler starts from the state the
  body was in when it threw.\<close>

definition try_catch :: "result \<Rightarrow> (error \<Rightarrow> app \<Rightarrow> result) \<Rightarrow> result" where
  "try_catch body handler = (case body of Inl (e, s) \<Rightarrow> handler e s | Inr s \<Rightarrow> Inr s)"

text \<open>The reminder command runs before the \<open>try\<close>: what \<open>addReminder\<close> throws leaves
  the function, after the user's turn was appended and before the confirmation.\<close>

definition sendMessageToMira :: "int \<Rightarrow> string \<Rightarrow> app \<Rightarrow> app async" where
  \<open>sendMessageToMira now msg s =
     (if trim msg = [] then Returned s
      else
        let s1 = appendMessage msg user s;
            s2 = s1\<lparr>chatInput_value := []\<rparr>
        in if startsWith (toLowerCase msg) ''remind me to'' then
             let reminderText = trim (substring msg (length ''remind me to''))
             in case addReminder now reminderText s2 of
                  Inl (thrown, s3) \<Rightarrow> Rejected thrown s3
                | Inr s3 \<Rightarrow>
                    let confirmation =
                          ''I've added a reminder for you: "'' @ reminderText @ ''"'';
                        s4 = appendMessage confirmation mira s3
                    in Returned (speak confirmation s4)
           else
             let s3 = showLoadingIndicator s2
             in Awaiting msg (s3\<lparr>calls := calls s3 @ [chat_sendMessage msg]\<rparr>))\<close>

definition sendMessageToMira_resume :: "error + string \<Rightarrow> app \<Rightarrow> result" where
  "sendMessageToMira_resume settled s =
     try_catch
       (case settled of
          Inl rejection \<Rightarrow> Inl (rejection, s)
        | Inr miraResponse \<Rightarrow>
            Inr (speak miraResponse (appendMessage miraResponse mira (hideLoadingIndicator s))))
       (\<lambda>error s0.
          let s1 = hideLoadingIndicator s0;
              errorMessage =
                ''I apologize, but I had a little trouble connecting. Could you please try again?''
          in Inr (speak errorMessage (appendMessage errorMessage mira s1)))"


text \<open>The messages sent to the remote session so far.\<close>

fun chat_calls_of :: "call list \<Rightarrow> string list" where
  "chat_calls_of [] = []"
| "chat_calls_of (chat_sendMessage m # cs) = m # chat_calls_of cs"
| "chat_calls_of (_ # cs) = chat_calls_of cs"

definition chat_calls :: "app \<Rightarrow> string list" where
  "chat_calls s = chat_calls_of (calls s)"

text \<open>
  A whole user turn with no other handler in between: \<open>chat\<close> is the remote session, which
  answers a message or rejects, depending on the messages it was sent before.
\<close>

definition run_turn ::
  "(string list \<Rightarrow> string \<Rightarrow> error + string) \<Rightarrow> app \<Rightarrow> app async \<Rightarrow> result" where
  "run_turn chat s started =
     (case started of
        Returned s' \<Rightarrow> Inr s'
      | Rejected thrown s' \<Rightarrow> Inl (thrown, s')
      | Awaiting msg s' \<Rightarrow> sendMessageToMira_resume (chat (chat_calls s) msg) s')"

subsection \<open>Event listeners\<close>

definition chatForm_submit :: "int \<Rightarrow> app \<Rightarrow> app async" where
  "chatForm_submit now s = sendMessageToMira now (chatInput_value s) s"

definition remindersButton_click :: "app \<Rightarrow> app" where
  "remindersButton_click s = s\<lparr>remindersContainer_hidden := False\<rparr>"

definition closeRemindersButton_click :: "app \<Rightarrow> app" where
  "closeRemindersButton_click s = s\<lparr>remindersContainer_hidden := True\<rparr>"

text \<open>The click target inside \<open>#reminders-list\<close>: an element of class
  \<open>delete-reminder-btn\<close>, with the integer its \<open>data-id\<close> attribute converts to, or
  anything else.\<close>

datatype click_target = delete_reminder_btn int | other_target

definition remindersList_click :: "click_target \<Rightarrow> app \<Rightarrow> result" where
  "remindersList_click target s =
     (case target of
        delete_reminder_btn i \<Rightarrow> deleteReminder i s
      | other_target \<Rightarrow> Inr s)"

text \<open>The handlers below are installed only when the browser has speech recognition.\<close>

definition micButton_click :: "app \<Rightarrow> app" where
  "micButton_click s =
     (if isListening s then s\<lparr>calls := calls s @ [recognition_stop]\<rparr>
      else
        let s1 = s\<lparr>calls := calls s @ [synth_cancel]\<rparr>
        in s1\<lparr>calls := calls s1 @ [recognition_start]\<rparr>)"

definition recognition_onstart :: "app \<Rightarrow> app" where
  "recognition_onstart s = s\<lparr>isListening := True, micButton_listening := True\<rparr>"

definition recognition_onend :: "app \<Rightarrow> app" where
  "recognition_onend s = s\<lparr>isListening := False, micButton_listening := False\<rparr>"

definition recognition_onresult :: "int \<Rightarrow> string \<Rightarrow> app \<Rightarrow> app async" where
  "recognition_onresult now transcript s =
     sendMessageToMira now transcript (s\<lparr>chatInput_value := transcript\<rparr>)"

text \<open>\<open>recognition.onerror\<close> of \<open>index.tsx\<close>; the argument is \<open>event.error\<close>.\<close>

definition recognition_onerror :: "string \<Rightarrow> app \<Rightarrow> app" where
  "recognition_onerror event_error s =
     (let errorMessage = ''I'm sorry, I couldn't hear that. Please try again.''
      in speak errorMessage (appendMessage errorMessage mira s))"

text \<open>\<open>recognition.onerror\<close> of the unnamed source file.\<close>

definition recognition_onerror_part_000 :: "string \<Rightarrow> app \<Rightarrow> app" where
  "recognition_onerror_part_000 event_error s =
     (if event_error = ''aborted'' then s
      else
        let errorMessage =
              (if event_error = ''network'' then
                 ''I'm having trouble connecting to the voice service. Could you please check your internet connection and try again?''
               else if event_error = ''no-speech'' then
                 ''I didn't seem to hear anything. Please try speaking again.''
               else if event_error = ''not-allowed'' \<or> event_error = ''service-not-allowed'' then
                 ''It seems I do not have permission to use your microphone. You may need to allow it in your browser settings.''
               else
                 ''I'm sorry, I couldn't quite understand that. Please try again.'')
        in speak errorMessage (appendMessage errorMessage mira s))"

text \<open>The \<open>load\<close> handler, and the greeting its timer runs half a second later.\<close>

definition window_load :: "app \<Rightarrow> app option" where
  "window_load s = loadReminders s"

definition initial_greeting :: "app \<Rightarrow> app" where
  \<open>initial_greeting s =
     (let welcomeMessage = ''Hello, I'm MIRA. How can I help you today?''
      in speak welcomeMessage (appendMessage welcomeMessage mira s))\<close>

subsection \<open>Observations used by the properties\<close>

text \<open>The turns of the transcript: the message elements of \<open>#chat-history\<close>, in order.\<close>

fun transcript_of :: "element list \<Rightarrow> (sender \<times> string) list" where
  "transcript_of [] = []"
| "transcript_of (message sndr txt # es) = (sndr, txt) # transcript_of es"
| "transcript_of (loading # es) = transcript_of es"

definition transcript :: "app \<Rightarrow> (sender \<times> string) list" where
  "transcript s = transcript_of (chatHistory s)"

text \<open>The texts handed to the synthesiser so far.\<close>

fun spoken_of :: "call list \<Rightarrow> string list" where
  "spoken_of [] = []"
| "spoken_of (synth_speak u # cs) = utterance_text u # spoken_of cs"
| "spoken_of (_ # cs) = spoken_of cs"

definition spoken :: "app \<Rightarrow> string list" where
  "spoken s = spoken_of (calls s)"

text \<open>A first visit: nothing persisted yet, and storage that takes every write. And a
  visit in a browser whose storage takes no write at all (full, or disabled).\<close>

definition first_visit :: app where
  "first_visit = fresh_session Map.empty (\<lambda>key val. True)"

definition visit_without_storage :: app where
  "visit_without_storage = fresh_session Map.empty (\<lambda>key val. False)"


text \<open>A sequence of operations on the Reminder Store, each add with the time it runs at.
  Each operation is a handler of its own: what one throws does not stop the next.\<close>

datatype store_op = Add int string | Delete int

fun apply_ops :: "store_op list \<Rightarrow> app \<Rightarrow> app" where
  "apply_ops [] s = s"
| "apply_ops (Add now txt # ops) s = apply_ops ops (state_after (addReminder now txt s))"
| "apply_ops (Delete i # ops) s = apply_ops ops (state_after (deleteReminder i s))"

fun add_times :: "store_op list \<Rightarrow> int list" where
  "add_times [] = []"
| "add_times (Add now txt # ops) = now # add_times ops"
| "add_times (Delete i # ops) = add_times ops"

section \<open>Properties\<close>

subsection \<open>How each function changes what the properties observe\<close>

lemma transcript_of_append: "transcript_of (xs @ ys) = transcript_of xs @ transcript_of ys"
  by (induction xs rule: transcript_of.induct) simp_all

lemma transcript_of_remove1_loading: "transcript_of (remove1 loading xs) = transcript_of xs"
  by (induction xs rule: transcript_of.induct) simp_all

lemma spoken_of_append: "spoken_of (xs @ ys) = spoken_of xs @ spoken_of ys"
  by (induction xs rule: spoken_of.induct) simp_all

lemma chat_calls_of_append: "chat_calls_of (xs @ ys) = chat_calls_of xs @ chat_calls_of ys"
  by (induction xs rule: chat_calls_of.induct) simp_all

lemma appendMessage_fields:
  "transcript (appendMessage txt sndr s) = transcript s @ [(sndr, txt)]"
  "calls (appendMessage txt sndr s) = calls s"
  "reminders (appendMessage txt sndr s) = reminders s"
  "isSpeaking (appendMessage txt sndr s) = isSpeaking s"
  "slowModeToggle_checked (appendMessage txt sndr s) = slowModeToggle_checked s"
  "localStorage (appendMessage txt sndr s) = localStorage s"
  "localStorage_accepts (appendMessage txt sndr s) = localStorage_accepts s"
  "spoken (appendMessage txt sndr s) = spoken s"
  "chat_calls (appendMessage txt sndr s) = chat_calls s"
  by (simp_all add: appendMessage_def transcript_def spoken_def chat_calls_def
      transcript_of_append)

lemma speak_fields:
  "transcript (speak txt s) = transcript s"
  "spoken (speak txt s) = spoken s @ [txt]"
  "chat_calls (speak txt s) = chat_calls s"
  "reminders (speak txt s) = reminders s"
  "localStorage (speak txt s) = localStorage s"
  by (simp_all add: speak_def transcript_def spoken_def chat_calls_def Let_def
      spoken_of_append chat_calls_of_append)

lemma hideLoadingIndicator_fields:
  "transcript (hideLoadingIndicator s) = transcript s"
  "calls (hideLoadingIndicator s) = calls s"
  "reminders (hideLoadingIndicator s) = reminders s"
  "isSpeaking (hideLoadingIndicator s) = isSpeaking s"
  "slowModeToggle_checked (hideLoadingIndicator s) = slowModeToggle_checked s"
  "localStorage (hideLoadingIndicator s) = localStorage s"
  "spoken (hideLoadingIndicator s) = spoken s"
  "chat_calls (hideLoadingIndicator s) = chat_calls s"
  by (simp_all add: hideLoadingIndicator_def transcript_def spoken_def chat_calls_def
      transcript_of_remove1_loading)

lemma showLoadingIndicator_fields:
  "transcript (showLoadingIndicator s) = transcript s"
  "calls (showLoadingIndicator s) = calls s"
  "reminders (showLoadingIndicator s) = reminders s"
  "localStorage (showLoadingIndicator s) = localStorage s"
  "spoken (showLoadingIndicator s) = spoken s"
  "chat_calls (showLoadingIndicator s) = chat_calls s"
  by (simp_all add: showLoadingIndicator_def transcript_def spoken_def chat_calls_def
      transcript_of_append)

lemma update_fields:
  "transcript (s\<lparr>chatInput_value := v\<rparr>) = transcript s"
  "spoken (s\<lparr>chatInput_value := v\<rparr>) = spoken s"
  "chat_calls (s\<lparr>chatInput_value := v\<rparr>) = chat_calls s"
  "transcript (s\<lparr>calls := c\<rparr>) = transcript s"
  "spoken (s\<lparr>calls := c\<rparr>) = spoken_of c"
  "chat_calls (s\<lparr>calls := c\<rparr>) = chat_calls_of c"
  "transcript (s\<lparr>reminders := rs\<rparr>) = transcript s"
  "spoken (s\<lparr>reminders := rs\<rparr>) = spoken s"
  "chat_calls (s\<lparr>reminders := rs\<rparr>) = chat_calls s"
  by (simp_all add: transcript_def spoken_def chat_calls_def)

lemma renderReminders_fields:
  "localStorage (renderReminders s) = localStorage s"
  "localStorage_accepts (renderReminders s) = localStorage_accepts s"
  "reminders (renderReminders s) = reminders s"
  "transcript (renderReminders s) = transcript s"
  "spoken (renderReminders s) = spoken s"
  "chat_calls (renderReminders s) = chat_calls s"
  "isSpeaking (renderReminders s) = isSpeaking s"
  by (simp_all add: renderReminders_def transcript_def spoken_def chat_calls_def)

text \<open>\<open>saveReminders\<close> either stores the serialised list or throws and changes nothing.\<close>

lemma saveReminders_cases:
  "saveReminders s =
     (if localStorage_accepts s ''reminders'' (JSON_stringify (reminders s))
      then Inr (s\<lparr>localStorage := (localStorage s)(''reminders'' \<mapsto> JSON_stringify (reminders s))\<rparr>)
      else Inl (QuotaExceededError, s))"
  by (simp add: saveReminders_def setItem_def)

text \<open>The list after an add or a delete, whether or not the write went through.\<close>

lemma addReminder_reminders:
  "reminders (state_after (addReminder now txt s)) =
     reminders s @ [\<lparr> reminder_id = now, reminder_text = txt \<rparr>]"
  by (simp add: addReminder_def saveReminders_cases state_after_def Let_def
      renderReminders_fields)

lemma deleteReminder_reminders:
  "reminders (state_after (deleteReminder i s)) =
     filter (\<lambda>r. reminder_id r \<noteq> i) (reminders s)"
  by (simp add: deleteReminder_def saveReminders_cases state_after_def Let_def
      renderReminders_fields)

lemma addReminder_accepted:
  assumes "localStorage_accepts s ''reminders''
             (JSON_stringify (reminders s @ [\<lparr> reminder_id = now, reminder_text = txt \<rparr>]))"
  shows "\<exists>s'. addReminder now txt s = Inr s' \<and>
     reminders s' = reminders s @ [\<lparr> reminder_id = now, reminder_text = txt \<rparr>] \<and>
     localStorage s' = (localStorage s)(''reminders'' \<mapsto> JSON_stringify (reminders s')) \<and>
     transcript s' = transcript s \<and> spoken s' = spoken s \<and> chat_calls s' = chat_calls s \<and>
     isSpeaking s' = isSpeaking s"
  using assms
  by (simp add: addReminder_def saveReminders_cases Let_def renderReminders_def
      transcript_def spoken_def chat_calls_def)

lemma addReminder_refused:
  assumes "\<not> localStorage_accepts s ''reminders''
             (JSON_stringify (reminders s @ [\<lparr> reminder_id = now, reminder_text = txt \<rparr>]))"
  shows "\<exists>s'. addReminder now txt s = Inl (QuotaExceededError, s') \<and>
     reminders s' = reminders s @ [\<lparr> reminder_id = now, reminder_text = txt \<rparr>] \<and>
     localStorage s' = localStorage s \<and>
     transcript s' = transcript s \<and> spoken s' = spoken s \<and> chat_calls s' = chat_calls s"
  using assms
  by (simp add: addReminder_def saveReminders_cases Let_def update_fields
      transcript_def spoken_def chat_calls_def)

lemma deleteReminder_accepted:
  assumes "localStorage_accepts s ''reminders''
             (JSON_stringify (filter (\<lambda>r. reminder_id r \<noteq> i) (reminders s)))"
  shows "\<exists>s'. deleteReminder i s = Inr s' \<and>
     reminders s' = filter (\<lambda>r. reminder_id r \<noteq> i) (reminders s) \<and>
     localStorage s' = (localStorage s)(''reminders'' \<mapsto> JSON_stringify (reminders s'))"
  using assms
  by (simp add: deleteReminder_def saveReminders_cases Let_def renderReminders_fields)

lemma deleteReminder_refused:
  assumes "\<not> localStorage_accepts s ''reminders''
             (JSON_stringify (filter (\<lambda>r. reminder_id r \<noteq> i) (reminders s)))"
  shows "\<exists>s'. deleteReminder i s = Inl (QuotaExceededError, s') \<and>
     reminders s' = filter (\<lambda>r. reminder_id r \<noteq> i) (reminders s) \<and>
     localStorage s' = localStorage s"
  using assms
  by (simp add: deleteReminder_def saveReminders_cases Let_def)

lemma first_visit_fields:
  "chat_calls first_visit = []" "reminders first_visit = []"
  "transcript first_visit = []" "spoken first_visit = []" "calls first_visit = []"
  "isListening first_visit = False" "isSpeaking first_visit = False"
  "localStorage first_visit = Map.empty"
  "localStorage_accepts first_visit key val = True"
  by (simp_all add: first_visit_def fresh_session_def chat_calls_def transcript_def spoken_def)

lemma visit_without_storage_fields:
  "chat_calls visit_without_storage = []" "reminders visit_without_storage = []"
  "transcript visit_without_storage = []" "spoken visit_without_storage = []"
  "localStorage visit_without_storage = Map.empty"
  "localStorage_accepts visit_without_storage key val = False"
  by (simp_all add: visit_without_storage_def fresh_session_def chat_calls_def
      transcript_def spoken_def)

subsection \<open>Whitespace and the trigger phrase\<close>

lemma all_dropWhile: "(\<forall>x\<in>set (dropWhile P xs). P x) \<longleftrightarrow> (\<forall>x\<in>set xs. P x)"
  by (induction xs) auto

lemma trim_Nil_iff: "trim s = [] \<longleftrightarrow> (\<forall>c\<in>set s. isWhiteSpace c)"
  by (simp add: trim_def dropWhile_eq_Nil_conv all_dropWhile)

lemma toLowerCase_char_whitespace: "isWhiteSpace c \<Longrightarrow> toLowerCase_char c = c"
  by (auto simp: isWhiteSpace_def toLowerCase_char_def Let_def)

lemma not_whitespace_r: "\<not> isWhiteSpace (CHR ''r'')"
  by (simp add: isWhiteSpace_def)

lemma trigger_not_blank:
  assumes "startsWith (toLowerCase msg) ''remind me to''"
  shows "trim msg \<noteq> []"
proof -
  from assms obtain c cs where m: "msg = c # cs" and c: "toLowerCase_char c = CHR ''r''"
    by (cases msg) (auto simp: startsWith_def toLowerCase_def)
  have "\<not> isWhiteSpace c"
    using c toLowerCase_char_whitespace [of c] not_whitespace_r by auto
  then show ?thesis by (auto simp: trim_Nil_iff m)
qed




subsection \<open>The two halves of a user turn\<close>

lemma sendMessageToMira_blank:
  "trim msg = [] \<Longrightarrow> sendMessageToMira now msg s = Returned s"
  by (simp add: sendMessageToMira_def)

text \<open>A reminder command, when the write of the new list is accepted and when it is not.\<close>

lemma sendMessageToMira_trigger:
  assumes "startsWith (toLowerCase msg) ''remind me to''"
  shows \<open>\<exists>s'. chat_calls s' = chat_calls s \<and>
     reminders s' = reminders s @
       [\<lparr> reminder_id = now, reminder_text = trim (drop (length ''remind me to'') msg) \<rparr>] \<and>
     (if localStorage_accepts s ''reminders''
           (JSON_stringify (reminders s @
              [\<lparr> reminder_id = now,
                  reminder_text = trim (drop (length ''remind me to'') msg) \<rparr>]))
      then sendMessageToMira now msg s = Returned s' \<and>
           transcript s' = transcript s @
             [(user, msg),
              (mira, ''I've added a reminder for you: "'' @
                     trim (drop (length ''remind me to'') msg) @ ''"'')] \<and>
           spoken s' = spoken s @
             [''I've added a reminder for you: "'' @
              trim (drop (length ''remind me to'') msg) @ ''"'']
      else sendMessageToMira now msg s = Rejected QuotaExceededError s' \<and>
           transcript s' = transcript s @ [(user, msg)] \<and>
           spoken s' = spoken s \<and>
           localStorage s' = localStorage s)\<close>
proof -
  let ?txt = "trim (drop (length ''remind me to'') msg)"
  let ?s2 = "(appendMessage msg user s)\<lparr>chatInput_value := []\<rparr>"
  let ?new = "reminders s @ [\<lparr> reminder_id = now, reminder_text = ?txt \<rparr>]"
  have ne: "trim msg \<noteq> []" using assms by (rule trigger_not_blank)
  have s2: "reminders ?s2 = reminders s" "localStorage_accepts ?s2 = localStorage_accepts s"
    "transcript ?s2 = transcript s @ [(user, msg)]" "spoken ?s2 = spoken s"
    "chat_calls ?s2 = chat_calls s" "localStorage ?s2 = localStorage s"
    by (simp_all add: appendMessage_fields update_fields)
  show ?thesis
  proof (cases "localStorage_accepts s ''reminders'' (JSON_stringify ?new)")
    case True
    then have "localStorage_accepts ?s2 ''reminders''
        (JSON_stringify (reminders ?s2 @ [\<lparr> reminder_id = now, reminder_text = ?txt \<rparr>]))"
      by (simp add: s2)
    from addReminder_accepted [OF this] obtain s3 where
      s3: "addReminder now ?txt ?s2 = Inr s3" "reminders s3 = ?new"
        "transcript s3 = transcript s @ [(user, msg)]" "spoken s3 = spoken s"
        "chat_calls s3 = chat_calls s"
      by (auto simp only: s2)
    with True ne assms show ?thesis
      by (simp add: sendMessageToMira_def Let_def substring_def
          appendMessage_fields speak_fields)
  next
    case False
    then have "\<not> localStorage_accepts ?s2 ''reminders''
        (JSON_stringify (reminders ?s2 @ [\<lparr> reminder_id = now, reminder_text = ?txt \<rparr>]))"
      by (simp add: s2)
    from addReminder_refused [OF this] obtain s3 where
      s3: "addReminder now ?txt ?s2 = Inl (QuotaExceededError, s3)" "reminders s3 = ?new"
        "transcript s3 = transcript s @ [(user, msg)]" "spoken s3 = spoken s"
        "chat_calls s3 = chat_calls s" "localStorage s3 = localStorage s"
      by (auto simp only: s2)
    with False ne assms show ?thesis
      by (simp add: sendMessageToMira_def Let_def substring_def)
  qed
qed

lemma sendMessageToMira_forward:
  assumes "trim msg \<noteq> []" and "\<not> startsWith (toLowerCase msg) ''remind me to''"
  shows "\<exists>s1. sendMessageToMira now msg s = Awaiting msg s1 \<and>
     chat_calls s1 = chat_calls s @ [msg] \<and>
     reminders s1 = reminders s \<and>
     transcript s1 = transcript s @ [(user, msg)] \<and>
     spoken s1 = spoken s"
  using assms
  by (simp add: sendMessageToMira_def Let_def
        appendMessage_fields showLoadingIndicator_fields update_fields
        spoken_of_append chat_calls_of_append
        spoken_def [symmetric] chat_calls_def [symmetric])


text \<open>The part after the \<open>await\<close>, from any state.\<close>

lemma sendMessageToMira_resume_result:
  "\<exists>s'. sendMessageToMira_resume settled t = Inr s' \<and>
     transcript s' = transcript t @
       [(mira, case settled of
                 Inl rejection \<Rightarrow>
                   ''I apologize, but I had a little trouble connecting. Could you please try again?''
               | Inr miraResponse \<Rightarrow> miraResponse)] \<and>
     spoken s' = spoken t @
       [case settled of
          Inl rejection \<Rightarrow>
            ''I apologize, but I had a little trouble connecting. Could you please try again?''
        | Inr miraResponse \<Rightarrow> miraResponse] \<and>
     chat_calls s' = chat_calls t \<and> reminders s' = reminders t"
  by (cases settled)
    (simp_all add: sendMessageToMira_resume_def try_catch_def Let_def
      appendMessage_fields speak_fields hideLoadingIndicator_fields)

subsection \<open>The reminder command\<close>









subsection \<open>A rejected remote call\<close>

lemma hello_checks:
  "trim ''hello'' \<noteq> []" "\<not> startsWith (toLowerCase ''hello'') ''remind me to''"
  "trim ''how are you'' \<noteq> []" "\<not> startsWith (toLowerCase ''how are you'') ''remind me to''"
  by (simp_all add: trim_def isWhiteSpace_def startsWith_def toLowerCase_def)




subsection \<open>Turns appended per submission\<close>

lemma call_Sam_checks:
  "trim ''remind me to call Sam'' \<noteq> []"
  "startsWith (toLowerCase ''remind me to call Sam'') ''remind me to''"
  "trim (drop (length ''remind me to'') ''remind me to call Sam'') = ''call Sam''"
  "trim ''   '' = []"
  by (simp_all add: trim_def isWhiteSpace_def startsWith_def toLowerCase_def
      toLowerCase_char_def)

text \<open>
  Claim C3, as amended. A message that is empty or whitespace only leaves the whole state
  unchanged: no turn, no reminder, no remote call. A submitted message whose trimmed text is
  not empty appends exactly one user turn before the function returns, throws or suspends.
  If it is not a reminder command, exactly one assistant turn follows once the remote call
  settles, the model's reply or the fixed apology; the last conjunct states this for any state
  the page is in at that moment. If it is a reminder command, exactly one assistant turn, the
  confirmation, follows when \<open>localStorage\<close> accepts the write; when the write throws, the
  promise is rejected and the user's turn stays the only one.
\<close>

theorem turns_per_submission:
  fixes chat :: "string list \<Rightarrow> string \<Rightarrow> error + string"
  shows \<open>(trim msg = [] \<longrightarrow>
       sendMessageToMira now msg s = Returned s \<and>
       run_turn chat s (sendMessageToMira now msg s) = Inr s) \<and>
     (trim msg \<noteq> [] \<and> \<not> startsWith (toLowerCase msg) ''remind me to'' \<longrightarrow>
       sendMessageToMira now msg s = Awaiting msg (state_of (sendMessageToMira now msg s)) \<and>
       transcript (state_of (sendMessageToMira now msg s)) = transcript s @ [(user, msg)] \<and>
       (\<exists>s'. run_turn chat s (sendMessageToMira now msg s) = Inr s' \<and>
          transcript s' = transcript s @
            [(user, msg),
             (mira,
              case chat (chat_calls s) msg of
                Inl rejection \<Rightarrow>
                  ''I apologize, but I had a little trouble connecting. Could you please try again?''
              | Inr miraResponse \<Rightarrow> miraResponse)])) \<and>
     (startsWith (toLowerCase msg) ''remind me to'' \<longrightarrow>
       trim msg \<noteq> [] \<and>
       (if localStorage_accepts s ''reminders''
             (JSON_stringify (reminders s @
                [\<lparr> reminder_id = now,
                    reminder_text = trim (drop (length ''remind me to'') msg) \<rparr>]))
        then \<exists>s'. sendMessageToMira now msg s = Returned s' \<and>
               run_turn chat s (sendMessageToMira now msg s) = Inr s' \<and>
               transcript s' = transcript s @
                 [(user, msg),
                  (mira, ''I've added a reminder for you: "'' @
                         trim (drop (length ''remind me to'') msg) @ ''"'')]
        else \<exists>s'. sendMessageToMira now msg s = Rejected QuotaExceededError s' \<and>
               run_turn chat s (sendMessageToMira now msg s) = Inl (QuotaExceededError, s') \<and>
               transcript s' = transcript s @ [(user, msg)])) \<and>
     (\<exists>s'. sendMessageToMira_resume settled t = Inr s' \<and>
        transcript s' = transcript t @
          [(mira, case settled of
                    Inl rejection \<Rightarrow>
                      ''I apologize, but I had a little trouble connecting. Could you please try again?''
                  | Inr miraResponse \<Rightarrow> miraResponse)])\<close>
  (is "(_ \<longrightarrow> ?blank) \<and> (?c \<longrightarrow> ?forward) \<and> (?tr \<longrightarrow> ?command) \<and> ?resume")
proof -
  have blank: ?blank if "trim msg = []"
    using that by (simp add: sendMessageToMira_blank run_turn_def)
  have forward: ?forward if "?c"
  proof -
    from that sendMessageToMira_forward [of msg now s] obtain s1 where
      s1: "sendMessageToMira now msg s = Awaiting msg s1"
        "transcript s1 = transcript s @ [(user, msg)]"
      by blast
    from sendMessageToMira_resume_result [of "chat (chat_calls s) msg" s1] s1
    show ?thesis
      by (auto simp: run_turn_def)
  qed
  have command: ?command if "?tr"
    using sendMessageToMira_trigger [OF that, of s now] trigger_not_blank [OF that]
    by (auto simp: run_turn_def)
  have resume: ?resume
    using sendMessageToMira_resume_result [of settled t] by blast
  from blank forward command resume show ?thesis by blast
qed

theorem turns_per_submission_witness:
  \<open>trim ''   '' = [] \<and>
   sendMessageToMira 5 ''   '' first_visit = Returned first_visit \<and>
   trim ''hello'' \<noteq> [] \<and> \<not> startsWith (toLowerCase ''hello'') ''remind me to'' \<and>
   transcript (state_of (sendMessageToMira 5 ''hello'' first_visit)) = [(user, ''hello'')] \<and>
   (\<exists>s'. run_turn (\<lambda>history m. Inr ''Hello, dear.'') first_visit
            (sendMessageToMira 5 ''hello'' first_visit) = Inr s' \<and>
      transcript s' = [(user, ''hello''), (mira, ''Hello, dear.'')]) \<and>
   startsWith (toLowerCase ''remind me to call Sam'') ''remind me to'' \<and>
   localStorage_accepts first_visit ''reminders''
     (JSON_stringify [\<lparr> reminder_id = 5, reminder_text = ''call Sam'' \<rparr>]) \<and>
   (\<exists>s'. run_turn (\<lambda>history m. Inr ''Hello, dear.'') first_visit
            (sendMessageToMira 5 ''remind me to call Sam'' first_visit) = Inr s' \<and>
      transcript s' =
        [(user, ''remind me to call Sam''),
         (mira, ''I've added a reminder for you: "call Sam"'')])\<close>
proof -
  note blank = turns_per_submission [where msg = "''   ''" and now = 5 and s = first_visit,
      THEN conjunct1, THEN mp, OF call_Sam_checks(4), THEN conjunct1]
  have c: "trim ''hello'' \<noteq> [] \<and> \<not> startsWith (toLowerCase ''hello'') ''remind me to''"
    using hello_checks by simp
  note hello = turns_per_submission [where msg = "''hello''" and now = 5 and s = first_visit
      and chat = "\<lambda>history m. Inr ''Hello, dear.''",
      THEN conjunct2, THEN conjunct1, THEN mp, OF c]
  note sam = turns_per_submission [where msg = "''remind me to call Sam''" and now = 5
      and s = first_visit and chat = "\<lambda>history m. Inr ''Hello, dear.''",
      THEN conjunct2, THEN conjunct2, THEN conjunct1, THEN mp, OF call_Sam_checks(2),
      THEN conjunct2, unfolded call_Sam_checks(3)]
  have a: "localStorage_accepts first_visit ''reminders''
     (JSON_stringify [\<lparr> reminder_id = 5, reminder_text = ''call Sam'' \<rparr>])"
    by (simp add: first_visit_fields)
  from sam have sam': \<open>\<exists>s'. run_turn (\<lambda>history m. Inr ''Hello, dear.'') first_visit
            (sendMessageToMira 5 ''remind me to call Sam'' first_visit) = Inr s' \<and>
      transcript s' =
        [(user, ''remind me to call Sam''),
         (mira, ''I've added a reminder for you: "call Sam"'')]\<close>
    by (auto simp: first_visit_fields)
  from hello have hello': "transcript (state_of (sendMessageToMira 5 ''hello'' first_visit)) =
      [(user, ''hello'')] \<and>
   (\<exists>s'. run_turn (\<lambda>history m. Inr ''Hello, dear.'') first_visit
            (sendMessageToMira 5 ''hello'' first_visit) = Inr s' \<and>
      transcript s' = [(user, ''hello''), (mira, ''Hello, dear.'')])"
    by (simp add: first_visit_fields)
  from blank c hello' call_Sam_checks(2,4) a sam' show ?thesis
    by (simp only: simp_thms)
qed

text \<open>A reminder command in a browser whose storage takes no write: a non-empty message,
  one user turn, no assistant turn.\<close>

theorem turns_refused_write_counterexample:
  \<open>trim ''remind me to call Sam'' \<noteq> [] \<and>
   is_Rejected (sendMessageToMira 5 ''remind me to call Sam'' visit_without_storage) \<and>
   transcript (state_of (sendMessageToMira 5 ''remind me to call Sam'' visit_without_storage)) =
     [(user, ''remind me to call Sam'')]\<close>
  using sendMessageToMira_trigger [OF call_Sam_checks(2), of visit_without_storage 5]
    call_Sam_checks(1)
  by (auto simp: visit_without_storage_fields)

subsection \<open>Speech recognition errors\<close>

text \<open>The handler of the unnamed source file: silent on \<open>aborted\<close>, otherwise one of
  four distinct messages, chosen by the error code.\<close>

lemma recognition_onerror_part_000_taxonomy:
  \<open>recognition_onerror_part_000 ''aborted'' s = s \<and>
   (event_error \<noteq> ''aborted'' \<longrightarrow>
      (\<exists>m. transcript (recognition_onerror_part_000 event_error s) = transcript s @ [(mira, m)] \<and>
           spoken (recognition_onerror_part_000 event_error s) = spoken s @ [m] \<and>
           m = (if event_error = ''network'' then
                  ''I'm having trouble connecting to the voice service. Could you please check your internet connection and try again?''
                else if event_error = ''no-speech'' then
                  ''I didn't seem to hear anything. Please try speaking again.''
                else if event_error \<in> {''not-allowed'', ''service-not-allowed''} then
                  ''It seems I do not have permission to use your microphone. You may need to allow it in your browser settings.''
                else ''I'm sorry, I couldn't quite understand that. Please try again.''))) \<and>
   distinct
     [''I'm having trouble connecting to the voice service. Could you please check your internet connection and try again?'',
      ''I didn't seem to hear anything. Please try speaking again.'',
      ''It seems I do not have permission to use your microphone. You may need to allow it in your browser settings.'',
      ''I'm sorry, I couldn't quite understand that. Please try again.'']\<close>
  by (simp add: recognition_onerror_part_000_def Let_def appendMessage_fields speak_fields)

text \<open>
  Claim C7 says that a speech recognition failure shows one of four distinct fixed messages
  chosen by category, and that a user-initiated abort shows nothing. The handler of
  \<open>index.tsx\<close> does not do this: on \<open>aborted\<close> it appends and speaks its single
  message, and \<open>network\<close> and \<open>no-speech\<close> give the same transcript. The handler of
  the unnamed source file leaves the state unchanged on \<open>aborted\<close>.
\<close>

theorem recognition_onerror_aborted:
  \<open>transcript (recognition_onerror ''aborted'' first_visit) =
     [(mira, ''I'm sorry, I couldn't hear that. Please try again.'')] \<and>
   spoken (recognition_onerror ''aborted'' first_visit) =
     [''I'm sorry, I couldn't hear that. Please try again.''] \<and>
   transcript (recognition_onerror ''network'' first_visit) =
     transcript (recognition_onerror ''no-speech'' first_visit) \<and>
   recognition_onerror_part_000 ''aborted'' first_visit = first_visit\<close>
  by (simp add: recognition_onerror_def recognition_onerror_part_000_def Let_def
      appendMessage_fields speak_fields first_visit_fields)

subsection \<open>The microphone button\<close>

text \<open>
  Claim C8. A click on the microphone button while not listening cancels speech output
  and then starts recognition, in this order, whether or not something is being spoken; a
  click while listening stops recognition, starts no second session and does not cancel
  speech output.
\<close>

theorem micButton_toggle:
  "(\<not> isListening s \<longrightarrow>
      calls (micButton_click s) = calls s @ [synth_cancel, recognition_start]) \<and>
   (isListening s \<longrightarrow> calls (micButton_click s) = calls s @ [recognition_stop])"
  by (simp add: micButton_click_def Let_def)

theorem micButton_toggle_witness:
  "isSpeaking (utterance_onstart first_visit) \<and>
   \<not> isListening (utterance_onstart first_visit) \<and>
   calls (micButton_click (utterance_onstart first_visit)) = [synth_cancel, recognition_start] \<and>
   isListening (recognition_onstart first_visit) \<and>
   calls (micButton_click (recognition_onstart first_visit)) = [recognition_stop]"
  using micButton_toggle [of "utterance_onstart first_visit"]
    micButton_toggle [of "recognition_onstart first_visit"]
  by (simp add: utterance_onstart_def recognition_onstart_def first_visit_fields)

subsection \<open>Deleting a reminder\<close>

lemma filter_other_ids: "y \<notin> f ` set xs \<Longrightarrow> filter (\<lambda>x. f x \<noteq> y) xs = xs"
  by (induction xs) auto

lemma filter_split_distinct:
  assumes "distinct (map f (before @ r # after))"
  shows "filter (\<lambda>x. f x \<noteq> f r) (before @ r # after) = before @ after"
proof -
  from assms have "f r \<notin> f ` set before" "f r \<notin> f ` set after" by auto
  then show ?thesis by (simp add: filter_other_ids)
qed

lemma apply_ops_three_adds:
  "reminders (apply_ops [Add 1 ''a'', Add 2 ''b'', Add 3 ''c''] first_visit) =
     [\<lparr> reminder_id = 1, reminder_text = ''a'' \<rparr>] @
     \<lparr> reminder_id = 2, reminder_text = ''b'' \<rparr> #
     [\<lparr> reminder_id = 3, reminder_text = ''c'' \<rparr>]"
  by (simp add: addReminder_reminders first_visit_fields)

lemma apply_ops_equal_entries:
  "reminders (apply_ops [Add 1000 ''call Sam'', Add 1000 ''call Sam'', Add 2000 ''water the plants'']
      first_visit) =
     [\<lparr> reminder_id = 1000, reminder_text = ''call Sam'' \<rparr>,
      \<lparr> reminder_id = 1000, reminder_text = ''call Sam'' \<rparr>,
      \<lparr> reminder_id = 2000, reminder_text = ''water the plants'' \<rparr>]"
  by (simp add: addReminder_reminders first_visit_fields)

text \<open>
  Claim C5, as amended. \<open>deleteReminder i\<close> leaves in the in-memory list exactly the
  entries whose id is not \<open>i\<close>, each as often as it was there, in their order and
  unchanged: it removes as many entries as have the id \<open>i\<close>, and no other. When the ids in
  the list are pairwise distinct this is at most one entry: the list shrinks by at most one,
  and if the entry with id \<open>i\<close> sits between \<open>before\<close> and \<open>after\<close>, the result is
  \<open>before @ after\<close>. This holds whether or not the write to \<open>localStorage\<close> that
  follows goes through.
\<close>

theorem deleteReminder_entries:
  "reminders (state_after (deleteReminder i s)) =
     filter (\<lambda>r. reminder_id r \<noteq> i) (reminders s) \<and>
   length (reminders s) =
     length (reminders (state_after (deleteReminder i s))) +
     length (filter (\<lambda>r. reminder_id r = i) (reminders s)) \<and>
   subseq (reminders (state_after (deleteReminder i s))) (reminders s) \<and>
   (\<forall>r\<in>set (reminders s).
      r \<in> set (reminders (state_after (deleteReminder i s))) \<longleftrightarrow> reminder_id r \<noteq> i) \<and>
   (distinct (map reminder_id (reminders s)) \<longrightarrow>
      length (reminders s) \<le> Suc (length (reminders (state_after (deleteReminder i s)))) \<and>
      (\<forall>before r after. reminders s = before @ r # after \<and> reminder_id r = i \<longrightarrow>
         reminders (state_after (deleteReminder i s)) = before @ after))"
proof -
  let ?rs = "reminders s"
  let ?rs' = "reminders (state_after (deleteReminder i s))"
  have e: "?rs' = filter (\<lambda>r. reminder_id r \<noteq> i) ?rs"
    by (rule deleteReminder_reminders)
  have n: "length ?rs = length ?rs' + length (filter (\<lambda>r. reminder_id r = i) ?rs)"
    using sum_length_filter_compl [of "\<lambda>r. reminder_id r = i" ?rs] by (simp add: e)
  have a: "subseq ?rs' ?rs"
    by (simp add: e)
  have b: "\<forall>r\<in>set ?rs. r \<in> set ?rs' \<longleftrightarrow> reminder_id r \<noteq> i"
    by (simp add: e)
  have c: "?rs' = before @ after"
    if "distinct (map reminder_id ?rs)" "?rs = before @ r # after" "reminder_id r = i"
    for before r after
    using that filter_split_distinct [of reminder_id before r after]
    by (simp add: e)
  have d: "length ?rs \<le> Suc (length ?rs')"
    if dist: "distinct (map reminder_id ?rs)"
  proof (cases "\<exists>r\<in>set ?rs. reminder_id r = i")
    case True
    then obtain r where r: "r \<in> set ?rs" "reminder_id r = i"
      by blast
    from split_list [OF r(1)] obtain before after where "?rs = before @ r # after"
      by blast
    then have "?rs' = before @ after"
      using r(2) by (rule c [OF dist])
    with \<open>?rs = before @ r # after\<close> show ?thesis by simp
  next
    case False
    then have "?rs' = ?rs"
      by (simp add: e filter_id_conv)
    then show ?thesis by simp
  qed
  show ?thesis
  proof (intro conjI impI allI)
    show "?rs' = filter (\<lambda>r. reminder_id r \<noteq> i) ?rs" by (rule e)
    show "length ?rs = length ?rs' + length (filter (\<lambda>r. reminder_id r = i) ?rs)" by (rule n)
    show "subseq ?rs' ?rs" by (rule a)
    show "\<forall>r\<in>set ?rs. r \<in> set ?rs' \<longleftrightarrow> reminder_id r \<noteq> i"
      by (rule b)
    show "length ?rs \<le> Suc (length ?rs')"
      if "distinct (map reminder_id ?rs)"
      using that by (rule d)
    show "?rs' = before @ after"
      if "distinct (map reminder_id ?rs)" "?rs = before @ r # after \<and> reminder_id r = i"
      for before r after
      using that c [of before r after] by simp
  qed
qed

theorem deleteReminder_entries_witness:
  "distinct (map reminder_id
     (reminders (apply_ops [Add 1 ''a'', Add 2 ''b'', Add 3 ''c''] first_visit))) \<and>
   reminders (apply_ops [Add 1 ''a'', Add 2 ''b'', Add 3 ''c''] first_visit) =
     [\<lparr> reminder_id = 1, reminder_text = ''a'' \<rparr>] @
     \<lparr> reminder_id = 2, reminder_text = ''b'' \<rparr> #
     [\<lparr> reminder_id = 3, reminder_text = ''c'' \<rparr>] \<and>
   reminders (state_after (deleteReminder 2
       (apply_ops [Add 1 ''a'', Add 2 ''b'', Add 3 ''c''] first_visit))) =
     [\<lparr> reminder_id = 1, reminder_text = ''a'' \<rparr>, \<lparr> reminder_id = 3, reminder_text = ''c'' \<rparr>] \<and>
   reminders (state_after (deleteReminder 2000
       (apply_ops [Add 1000 ''call Sam'', Add 1000 ''call Sam'', Add 2000 ''water the plants'']
          first_visit))) =
     [\<lparr> reminder_id = 1000, reminder_text = ''call Sam'' \<rparr>,
      \<lparr> reminder_id = 1000, reminder_text = ''call Sam'' \<rparr>]"
proof -
  let ?s = "apply_ops [Add 1 ''a'', Add 2 ''b'', Add 3 ''c''] first_visit"
  let ?d = "apply_ops [Add 1000 ''call Sam'', Add 1000 ''call Sam'', Add 2000 ''water the plants'']
      first_visit"
  note r = apply_ops_three_adds
  have d: "distinct (map reminder_id (reminders ?s))"
    by (simp only: r) simp
  note deleteReminder_entries [of 2 ?s, THEN conjunct2, THEN conjunct2, THEN conjunct2,
      THEN conjunct2, THEN mp, OF d, THEN conjunct2]
  from this [rule_format, of "[\<lparr> reminder_id = 1, reminder_text = ''a'' \<rparr>]"
      "\<lparr> reminder_id = 2, reminder_text = ''b'' \<rparr>"
      "[\<lparr> reminder_id = 3, reminder_text = ''c'' \<rparr>]"] r
  have one: "reminders (state_after (deleteReminder 2 ?s)) =
     [\<lparr> reminder_id = 1, reminder_text = ''a'' \<rparr>] @ [\<lparr> reminder_id = 3, reminder_text = ''c'' \<rparr>]"
    by simp
  from deleteReminder_entries [of 2000 ?d, THEN conjunct1]
  have two: "reminders (state_after (deleteReminder 2000 ?d)) =
     [\<lparr> reminder_id = 1000, reminder_text = ''call Sam'' \<rparr>,
      \<lparr> reminder_id = 1000, reminder_text = ''call Sam'' \<rparr>]"
    by (simp only: apply_ops_equal_entries) simp
  from d r one two show ?thesis by simp
qed

text \<open>Two reminders added within the same millisecond share their id, and one delete
  removes both.\<close>

lemma apply_ops_two_adds:
  "reminders (apply_ops [Add 1000 ''call Sam'', Add 1000 ''water the plants''] first_visit) =
     [\<lparr> reminder_id = 1000, reminder_text = ''call Sam'' \<rparr>,
      \<lparr> reminder_id = 1000, reminder_text = ''water the plants'' \<rparr>]"
  by (simp add: addReminder_reminders first_visit_fields)

theorem deleteReminder_removes_two_counterexample:
  "length (reminders (apply_ops [Add 1000 ''call Sam'', Add 1000 ''water the plants''] first_visit)) = 2 \<and>
   reminders (state_after (deleteReminder 1000
     (apply_ops [Add 1000 ''call Sam'', Add 1000 ''water the plants''] first_visit))) = []"
  by (simp add: deleteReminder_reminders apply_ops_two_adds del: apply_ops.simps)

subsection \<open>Reminder ids\<close>

lemma apply_ops_ids:
  "distinct (map reminder_id (reminders s) @ add_times ops) \<Longrightarrow>
   distinct (map reminder_id (reminders (apply_ops ops s))) \<and>
   set (map reminder_id (reminders (apply_ops ops s))) \<subseteq>
     set (map reminder_id (reminders s)) \<union> set (add_times ops)"
proof (induction ops s rule: apply_ops.induct)
  case (1 s)
  then show ?case by simp
next
  case (2 now t ops s)
  have "distinct (map reminder_id (reminders (state_after (addReminder now t s))) @
      add_times ops)"
    using "2.prems" by (auto simp: addReminder_reminders)
  from "2.IH" [OF this] show ?case
    by (auto simp: addReminder_reminders)
next
  case (3 i ops s)
  have "distinct (map reminder_id (reminders (state_after (deleteReminder i s))) @
      add_times ops)"
    using "3.prems" by (auto simp: deleteReminder_reminders distinct_map_filter)
  from "3.IH" [OF this] show ?case
    by (auto simp: deleteReminder_reminders)
qed

text \<open>
  Claim C9, as amended. Each add assigns the current timestamp as the id of the new
  reminder. After any sequence of adds and deletes that starts from an empty list and in
  which no two adds run at the same timestamp, the ids in the list are pairwise distinct,
  and each of them is the timestamp of one of the adds. Nothing in the code keeps two adds
  at the same timestamp apart.
\<close>

theorem ids_distinct_for_distinct_times:
  "reminders (state_after (addReminder now txt s)) =
     reminders s @ [\<lparr> reminder_id = now, reminder_text = txt \<rparr>] \<and>
   (reminders s = [] \<and> distinct (add_times ops) \<longrightarrow>
      distinct (map reminder_id (reminders (apply_ops ops s))) \<and>
      set (map reminder_id (reminders (apply_ops ops s))) \<subseteq> set (add_times ops))"
proof -
  have "distinct (map reminder_id (reminders (apply_ops ops s))) \<and>
      set (map reminder_id (reminders (apply_ops ops s))) \<subseteq> set (add_times ops)"
    if "reminders s = []" "distinct (add_times ops)"
    using apply_ops_ids [of s ops] that by simp
  then show ?thesis by (simp add: addReminder_reminders)
qed

theorem ids_distinct_for_distinct_times_witness:
  "reminders first_visit = [] \<and>
   distinct (add_times [Add 1000 ''call Sam'', Delete 1000, Add 1001 ''water the plants'', Add 1002 ''call Sam'']) \<and>
   distinct (map reminder_id (reminders
     (apply_ops [Add 1000 ''call Sam'', Delete 1000, Add 1001 ''water the plants'', Add 1002 ''call Sam'']
        first_visit)))"
  using ids_distinct_for_distinct_times [of _ _ first_visit
      "[Add 1000 ''call Sam'', Delete 1000, Add 1001 ''water the plants'', Add 1002 ''call Sam'']"]
  by (simp add: first_visit_fields del: apply_ops.simps)

text \<open>Two adds at the same timestamp give two different reminders with the same id.\<close>

theorem same_millisecond_counterexample:
  "reminders (apply_ops [Add 1000 ''call Sam'', Add 1000 ''water the plants''] first_visit) =
     [\<lparr> reminder_id = 1000, reminder_text = ''call Sam'' \<rparr>,
      \<lparr> reminder_id = 1000, reminder_text = ''water the plants'' \<rparr>] \<and>
   \<not> distinct (map reminder_id
     (reminders (apply_ops [Add 1000 ''call Sam'', Add 1000 ''water the plants''] first_visit)))"
  by (simp add: apply_ops_two_adds del: apply_ops.simps)

subsection \<open>Reading back what \<open>JSON.stringify\<close> wrote\<close>

text \<open>Numbers: the digits of \<open>n\<close> are digits, have no leading zero, and read back as
  \<open>n\<close>.\<close>

lemma isDigit_char_of: "k < 10 \<Longrightarrow> isDigit (char_of (48 + k :: nat))"
  by (simp add: isDigit_def)

lemma digits_all_digit: "\<forall>c\<in>set (digits n). isDigit c"
  by (induction n rule: digits.induct) (subst digits.simps, simp add: isDigit_char_of)

lemma digits_not_Nil: "digits n \<noteq> []"
  by (subst digits.simps) simp

lemma digits_value_snoc:
  "digits_value (ds @ [c]) = 10 * digits_value ds + (of_char c - 48)"
  by (simp add: digits_value_def)

lemma digits_value_digits: "digits_value (digits n) = n"
proof (induction n rule: digits.induct)
  case (1 n)
  show ?case
  proof (cases "n < 10")
    case True
    then show ?thesis
      by (subst digits.simps) (simp add: digits_value_def)
  next
    case False
    have "n mod 10 < 10" by simp
    with False "1.IH" show ?thesis
      by (subst digits.simps) (simp add: digits_value_snoc)
  qed
qed

lemma hd_digits_nonzero: "0 < n \<Longrightarrow> hd (digits n) \<noteq> CHR ''0''"
proof (induction n rule: digits.induct)
  case (1 n)
  show ?case
  proof (cases "n < 10")
    case True
    with "1.prems" show ?thesis
      by (subst digits.simps) (simp add: char_of_eq_iff take_bit_eq_mod)
  next
    case False
    then have "0 < n div 10" by simp
    with False "1.IH" have "hd (digits (n div 10)) \<noteq> CHR ''0''" by simp
    with False show ?thesis
      by (subst digits.simps) (simp add: digits_not_Nil)
  qed
qed

lemma length_digits_one: "n < 10 \<Longrightarrow> length (digits n) = 1"
  by (subst digits.simps) simp

lemma no_leading_zero: "1 < length (digits n) \<Longrightarrow> hd (digits n) \<noteq> CHR ''0''"
  using hd_digits_nonzero [of n] length_digits_one [of n] by (cases "n = 0") auto

lemma takeWhile_digits:
  assumes "rest = [] \<or> \<not> isDigit (hd rest)"
  shows "takeWhile isDigit (digits n @ rest) = digits n"
    and "dropWhile isDigit (digits n @ rest) = rest"
  using assms digits_all_digit [of n]
  by (cases rest; simp add: takeWhile_append2 dropWhile_append2)+

lemma parse_unsigned_digits:
  assumes "rest = [] \<or> \<not> isDigit (hd rest)"
  shows "parse_unsigned (digits n @ rest) = Some (n, rest)"
  using no_leading_zero [of n]
  by (auto simp add: parse_unsigned_def Let_def takeWhile_digits [OF assms] digits_not_Nil
      digits_value_digits)

lemma hd_digits_not_minus: "hd (digits n) \<noteq> CHR ''-''"
  using digits_all_digit [of n] digits_not_Nil [of n]
  by (cases "digits n") (auto simp: isDigit_def)

lemma parse_number_toString:
  assumes "rest = [] \<or> \<not> isDigit (hd rest)" and "isSafeInteger i"
  shows "parse_number (Number_toString i @ rest) = Some (i, rest)"
proof (cases "i < 0")
  case True
  then show ?thesis using assms(2)
    by (simp add: parse_number_def Number_toString_def parse_unsigned_digits [OF assms(1)])
next
  case False
  obtain c cs where d: "digits (nat i) = c # cs"
    using digits_not_Nil [of "nat i"] by (cases "digits (nat i)") auto
  with hd_digits_not_minus [of "nat i"] have c: "c \<noteq> CHR ''-''" by simp
  from parse_unsigned_digits [OF assms(1), of "nat i"] d
  have "parse_unsigned (c # cs @ rest) = Some (nat i, rest)" by simp
  with False c d assms(2) show ?thesis
    by (simp add: parse_number_def Number_toString_def)
qed

text \<open>A number starts with a digit or a minus sign, so no whitespace is skipped before it.\<close>

lemma skip_ws_Number_toString: "skip_ws (Number_toString i @ rest) = Number_toString i @ rest"
proof (cases "i < 0")
  case True
  then show ?thesis
    by (simp add: Number_toString_def skip_ws_def isJSONWhiteSpace_def)
next
  case False
  obtain c cs where d: "digits (nat i) = c # cs"
    using digits_not_Nil [of "nat i"] by (cases "digits (nat i)") auto
  with digits_all_digit [of "nat i"] have "isDigit c" by simp
  then have "\<not> isJSONWhiteSpace c"
    by (auto simp: isJSONWhiteSpace_def isDigit_def)
  with False d show ?thesis
    by (simp add: Number_toString_def skip_ws_def)
qed

text \<open>Strings: every escape \<open>QuoteJSONString\<close> writes is read back as the character
  it stands for.\<close>

lemma hex_value_hex_digit: "k < 16 \<Longrightarrow> hex_value (hex_digit k) = Some k"
proof -
  assume "k < 16"
  then have "k = 0 \<or> k = 1 \<or> k = 2 \<or> k = 3 \<or> k = 4 \<or> k = 5 \<or> k = 6 \<or> k = 7 \<or>
      k = 8 \<or> k = 9 \<or> k = 10 \<or> k = 11 \<or> k = 12 \<or> k = 13 \<or> k = 14 \<or> k = 15"
    by presburger
  then show ?thesis
    by (elim disjE) (simp_all add: hex_value_def hex_digit_def)
qed

lemma hex_value_zero: "hex_value (CHR ''0'') = Some 0"
  by (simp add: hex_value_def)

lemma unicode_escape_control:
  assumes "(of_char c :: nat) < 32"
  shows "unicode_escape (CHR ''0'') (CHR ''0'')
           (hex_digit (of_char c div 16)) (hex_digit (of_char c mod 16)) = Some c"
proof -
  let ?n = "of_char c :: nat"
  have "?n div 16 < 16" using assms by simp
  then have a: "hex_value (hex_digit (?n div 16)) = Some (?n div 16)"
    by (rule hex_value_hex_digit)
  have b: "hex_value (hex_digit (?n mod 16)) = Some (?n mod 16)"
    by (rule hex_value_hex_digit) simp
  show ?thesis
    by (simp add: unicode_escape_def hex_value_zero a b)
qed

lemma char_eq_code: "of_char c = (of_char d :: nat) \<Longrightarrow> c = d"
  by (simp only: of_char_eq_iff)

lemma parse_chars_escape:
  "parse_chars (escape_char c @ rest) = cons_char c (parse_chars rest)"
proof -
  let ?n = "of_char c :: nat"
  consider "?n = 8" | "?n = 9" | "?n = 10" | "?n = 12" | "?n = 13" | "?n = 34" | "?n = 92"
    | "?n < 32" "?n \<notin> {8, 9, 10, 12, 13}" | "32 \<le> ?n" "?n \<noteq> 34" "?n \<noteq> 92"
    by fastforce
  then show ?thesis
  proof cases
    case 1
    then have "c = CHR 0x08" by (intro char_eq_code) simp
    then show ?thesis
      by (simp add: escape_char_def short_escape_def)
  next
    case 2
    then have "c = CHR 0x09" by (intro char_eq_code) simp
    then show ?thesis
      by (simp add: escape_char_def short_escape_def)
  next
    case 3
    then have "c = CHR 0x0A" by (intro char_eq_code) simp
    then show ?thesis
      by (simp add: escape_char_def short_escape_def)
  next
    case 4
    then have "c = CHR 0x0C" by (intro char_eq_code) simp
    then show ?thesis
      by (simp add: escape_char_def short_escape_def)
  next
    case 5
    then have "c = CHR 0x0D" by (intro char_eq_code) simp
    then show ?thesis
      by (simp add: escape_char_def short_escape_def)
  next
    case 6
    then have "c = CHR 0x22" by (intro char_eq_code) simp
    then show ?thesis
      by (simp add: escape_char_def short_escape_def)
  next
    case 7
    then have "c = CHR 0x5C" by (intro char_eq_code) simp
    then show ?thesis
      by (simp add: escape_char_def short_escape_def)
  next
    case 8
    then show ?thesis
      using unicode_escape_control [of c]
      by (simp add: escape_char_def Let_def)
  next
    case 9
    then have "c \<noteq> CHR 0x22" "c \<noteq> CHR 0x5C" by auto
    with 9 show ?thesis
      by (simp add: escape_char_def Let_def)
  qed
qed

lemma parse_chars_quoted:
  "parse_chars (concat (map escape_char t) @ CHR 0x22 # rest) = Some (t, rest)"
  by (induction t) (simp_all add: parse_chars_escape cons_char_def)

text \<open>Punctuation and keys: a token written without whitespace in front is read as itself.\<close>

lemma token_literal:
  assumes "\<not> isJSONWhiteSpace c"
  shows "token (c # lit) (c # lit @ rest) = Some rest"
  using assms by (simp add: token_def skip_ws_def expect_def startsWith_def)

lemma not_ws_punctuation:
  \<open>\<not> isJSONWhiteSpace (CHR ''{'')\<close> \<open>\<not> isJSONWhiteSpace (CHR ''}'')\<close>
  \<open>\<not> isJSONWhiteSpace (CHR ''['')\<close> \<open>\<not> isJSONWhiteSpace (CHR '']'')\<close>
  \<open>\<not> isJSONWhiteSpace (CHR '','')\<close> \<open>\<not> isJSONWhiteSpace (CHR '':'')\<close>
  \<open>\<not> isJSONWhiteSpace (CHR 0x22)\<close>
  by (simp_all add: isJSONWhiteSpace_def)

lemma parse_Reminder_stringify:
  assumes "isSafeInteger (reminder_id r)"
  shows "parse_Reminder (stringify_Reminder r @ rest) = Some (r, rest)"
proof -
  let ?n = "Number_toString (reminder_id r)"
  let ?q = "concat (map escape_char (reminder_text r)) @ CHR 0x22 # ''}'' @ rest"
  let ?after_number = \<open>'','' @ ''"text"'' @ '':'' @ ''"'' @ ?q\<close>
  have s: \<open>stringify_Reminder r @ rest = ''{'' @ ''"id"'' @ '':'' @ ?n @ ?after_number\<close>
    by (simp add: stringify_Reminder_def QuoteJSONString_def)
  have t1: \<open>token ''{'' (''{'' @ ''"id"'' @ '':'' @ ?n @ ?after_number) =
      Some (''"id"'' @ '':'' @ ?n @ ?after_number)\<close>
    using token_literal [OF not_ws_punctuation(1), of "[]"] by simp
  have t2: \<open>token ''"id"'' (''"id"'' @ '':'' @ ?n @ ?after_number) =
      Some ('':'' @ ?n @ ?after_number)\<close>
    using token_literal [OF not_ws_punctuation(7), of \<open>''id"''\<close>] by simp
  have t3: \<open>token '':'' ('':'' @ ?n @ ?after_number) = Some (?n @ ?after_number)\<close>
    using token_literal [OF not_ws_punctuation(6), of "[]"] by simp
  have n: \<open>parse_number (skip_ws (?n @ ?after_number)) = Some (reminder_id r, ?after_number)\<close>
    unfolding skip_ws_Number_toString
    by (rule parse_number_toString) (simp_all add: isDigit_def assms)
  have t5: \<open>token '','' ?after_number = Some (''"text"'' @ '':'' @ ''"'' @ ?q)\<close>
    using token_literal [OF not_ws_punctuation(5), of "[]"] by simp
  have t6: \<open>token ''"text"'' (''"text"'' @ '':'' @ ''"'' @ ?q) = Some ('':'' @ ''"'' @ ?q)\<close>
    using token_literal [OF not_ws_punctuation(7), of \<open>''text"''\<close>] by simp
  have t7: \<open>token '':'' ('':'' @ ''"'' @ ?q) = Some (''"'' @ ?q)\<close>
    using token_literal [OF not_ws_punctuation(6), of "[]"] by simp
  have t8: \<open>token ''"'' (''"'' @ ?q) = Some ?q\<close>
    using token_literal [OF not_ws_punctuation(7), of "[]"] by simp
  have c: "parse_chars ?q = Some (reminder_text r, ''}'' @ rest)"
    by (rule parse_chars_quoted)
  have t10: "token ''}'' (''}'' @ rest) = Some rest"
    using token_literal [OF not_ws_punctuation(2), of "[]"] by simp
  show ?thesis
    unfolding s parse_Reminder_def
    by (simp only: t1 t2 t3 n t5 t6 t7 t8 c t10 bind.bind_lunit prod.case) simp
qed

text \<open>Arrays, and the storage after a save.\<close>

lemma stringify_elements_Cons:
  "rs \<noteq> [] \<Longrightarrow> stringify_elements (r # rs) = stringify_Reminder r @ '','' @ stringify_elements rs"
  by (cases rs) simp_all

lemma skip_ws_punctuation:
  "skip_ws (CHR '']'' # rest) = CHR '']'' # rest"
  "skip_ws (CHR '','' # rest) = CHR '','' # rest"
  "skip_ws [] = []"
  by (simp_all add: skip_ws_def isJSONWhiteSpace_def)

lemma parse_elements_stringify:
  "rs \<noteq> [] \<Longrightarrow> safe_ids rs \<Longrightarrow> parse_elements (stringify_elements rs @ '']'') = Some rs"
proof (induction rs)
  case Nil
  then show ?case by simp
next
  case (Cons r rs)
  from Cons.prems(2) have safe: "isSafeInteger (reminder_id r)" "safe_ids rs"
    by (simp_all add: safe_ids_def)
  show ?case
  proof (cases "rs = []")
    case True
    then show ?thesis
      by (subst parse_elements.simps)
        (simp add: parse_Reminder_stringify [OF safe(1)] skip_ws_punctuation)
  next
    case False
    with Cons.IH safe(2) have ih: "parse_elements (stringify_elements rs @ '']'') = Some rs"
      by simp
    have "stringify_elements (r # rs) @ '']'' =
        stringify_Reminder r @ ('','' @ stringify_elements rs @ '']'')"
      using False by (simp add: stringify_elements_Cons)
    then show ?thesis
      by (subst parse_elements.simps)
        (simp add: parse_Reminder_stringify [OF safe(1)] skip_ws_punctuation ih)
  qed
qed

lemma stringify_Reminder_starts: "\<exists>tl. stringify_Reminder r = CHR ''{'' # tl"
  by (simp add: stringify_Reminder_def)

lemma stringify_elements_starts:
  "rs \<noteq> [] \<Longrightarrow> \<exists>tl. stringify_elements rs = CHR ''{'' # tl"
  using stringify_Reminder_starts
  by (cases rs rule: stringify_elements.cases) (auto, metis append_Cons)

lemma JSON_parse_stringify: "safe_ids rs \<Longrightarrow> JSON_parse (JSON_stringify rs) = Some rs"
proof (cases "rs = []")
  case True
  then show ?thesis
    by (simp add: JSON_parse_def JSON_stringify_def token_def skip_ws_def expect_def
        startsWith_def isJSONWhiteSpace_def)
next
  case False
  assume safe: "safe_ids rs"
  from False obtain tl where tl: "stringify_elements rs = CHR ''{'' # tl"
    using stringify_elements_starts by blast
  have t1: "token ''['' (JSON_stringify rs) = Some (stringify_elements rs @ '']'')"
    by (simp add: JSON_stringify_def token_def skip_ws_def expect_def startsWith_def
        isJSONWhiteSpace_def)
  have t2: "token '']'' (stringify_elements rs @ '']'') = None"
    by (simp add: tl token_def skip_ws_def expect_def startsWith_def isJSONWhiteSpace_def)
  show ?thesis
    by (simp add: JSON_parse_def t1 t2 parse_elements_stringify [OF False safe])
qed

lemma JSON_stringify_not_Nil: "JSON_stringify rs \<noteq> []"
  by (simp add: JSON_stringify_def)

lemma loadReminders_stored:
  assumes "localStorage s ''reminders'' = Some (JSON_stringify rs)" and "safe_ids rs"
  shows "loadReminders s = Some (renderReminders (s\<lparr>reminders := rs\<rparr>))"
  using assms by (simp add: loadReminders_def JSON_stringify_not_Nil JSON_parse_stringify)

lemma loadReminders_absent: "loadReminders first_visit = Some first_visit"
  by (simp add: loadReminders_def first_visit_def fresh_session_def)

text \<open>Whitespace between the tokens, which \<open>JSON.stringify\<close> never writes, is read over.\<close>

lemma JSON_parse_with_whitespace:
  \<open>JSON_parse '' [ { "id" : 7 , "text" : "call Sam" } ] '' =
     Some [\<lparr> reminder_id = 7, reminder_text = ''call Sam'' \<rparr>]\<close>
  by (simp add: JSON_parse_def parse_elements.simps parse_Reminder_def token_def skip_ws_def
      expect_def startsWith_def isJSONWhiteSpace_def parse_number_def parse_unsigned_def
      isDigit_def digits_value_def isSafeInteger_def cons_char_def)

subsection \<open>The Reminder Store and its persisted copy\<close>

lemma call_Sam_text:
  \<open>JSON_stringify [\<lparr> reminder_id = 1762041600000, reminder_text = ''call Sam'' \<rparr>] =
      ''[{"id":1762041600000,"text":"call Sam"}]''\<close>
  "JSON_stringify [] = ''[]''"
  by (simp_all add: JSON_stringify_def stringify_Reminder_def Number_toString_def
      QuoteJSONString_def escape_char_def digits.simps char_of_eq_iff)

text \<open>
  Claim C4, as amended. After every add and every delete whose write is accepted by
  \<open>localStorage\<close>, the text stored under the key \<open>reminders\<close> is the serialisation of the
  in-memory list as it is after the operation, and, the ids being safe integers, parsing that
  text gives exactly the in-memory list. When the write throws, the in-memory list has
  already been changed and the stored copy stays as it was.
\<close>

theorem write_through:
  "(localStorage_accepts s ''reminders''
      (JSON_stringify (reminders s @ [\<lparr> reminder_id = now, reminder_text = reminderText \<rparr>])) \<longrightarrow>
      (\<exists>s'. addReminder now reminderText s = Inr s' \<and>
         reminders s' = reminders s @ [\<lparr> reminder_id = now, reminder_text = reminderText \<rparr>] \<and>
         localStorage s' ''reminders'' = Some (JSON_stringify (reminders s')) \<and>
         (safe_ids (reminders s') \<longrightarrow>
            Option.bind (localStorage s' ''reminders'') JSON_parse = Some (reminders s')))) \<and>
   (\<not> localStorage_accepts s ''reminders''
      (JSON_stringify (reminders s @ [\<lparr> reminder_id = now, reminder_text = reminderText \<rparr>])) \<longrightarrow>
      (\<exists>s'. addReminder now reminderText s = Inl (QuotaExceededError, s') \<and>
         reminders s' = reminders s @ [\<lparr> reminder_id = now, reminder_text = reminderText \<rparr>] \<and>
         localStorage s' = localStorage s)) \<and>
   (localStorage_accepts s ''reminders''
      (JSON_stringify (filter (\<lambda>r. reminder_id r \<noteq> i) (reminders s))) \<longrightarrow>
      (\<exists>s'. deleteReminder i s = Inr s' \<and>
         reminders s' = filter (\<lambda>r. reminder_id r \<noteq> i) (reminders s) \<and>
         localStorage s' ''reminders'' = Some (JSON_stringify (reminders s')) \<and>
         (safe_ids (reminders s') \<longrightarrow>
            Option.bind (localStorage s' ''reminders'') JSON_parse = Some (reminders s')))) \<and>
   (\<not> localStorage_accepts s ''reminders''
      (JSON_stringify (filter (\<lambda>r. reminder_id r \<noteq> i) (reminders s))) \<longrightarrow>
      (\<exists>s'. deleteReminder i s = Inl (QuotaExceededError, s') \<and>
         reminders s' = filter (\<lambda>r. reminder_id r \<noteq> i) (reminders s) \<and>
         localStorage s' = localStorage s))"
  (is "(?a \<longrightarrow> ?A) \<and> (_ \<longrightarrow> ?B) \<and> (?c \<longrightarrow> ?C) \<and> (_ \<longrightarrow> ?D)")
proof -
  have A: ?A if ?a
  proof -
    from addReminder_accepted [OF that] obtain s' where
      s': "addReminder now reminderText s = Inr s'"
        "reminders s' = reminders s @ [\<lparr> reminder_id = now, reminder_text = reminderText \<rparr>]"
        "localStorage s' = (localStorage s)(''reminders'' \<mapsto> JSON_stringify (reminders s'))"
      by blast
    then have "localStorage s' ''reminders'' = Some (JSON_stringify (reminders s'))" by simp
    with s'(1,2) show ?thesis by (auto simp: JSON_parse_stringify)
  qed
  have B: ?B if "\<not> ?a"
    using addReminder_refused [OF that] by blast
  have C: ?C if ?c
  proof -
    from deleteReminder_accepted [OF that] obtain s' where
      s': "deleteReminder i s = Inr s'"
        "reminders s' = filter (\<lambda>r. reminder_id r \<noteq> i) (reminders s)"
        "localStorage s' = (localStorage s)(''reminders'' \<mapsto> JSON_stringify (reminders s'))"
      by blast
    then have "localStorage s' ''reminders'' = Some (JSON_stringify (reminders s'))" by simp
    with s'(1,2) show ?thesis by (auto simp: JSON_parse_stringify)
  qed
  have D: ?D if "\<not> ?c"
    using deleteReminder_refused [OF that] by blast
  from A B C D show ?thesis by blast
qed

theorem write_through_witness:
  \<open>localStorage_accepts first_visit ''reminders''
     (JSON_stringify [\<lparr> reminder_id = 1762041600000, reminder_text = ''call Sam'' \<rparr>]) \<and>
   (\<exists>s'. addReminder 1762041600000 ''call Sam'' first_visit = Inr s' \<and>
      reminders s' = [\<lparr> reminder_id = 1762041600000, reminder_text = ''call Sam'' \<rparr>] \<and>
      safe_ids (reminders s') \<and>
      localStorage s' ''reminders'' = Some ''[{"id":1762041600000,"text":"call Sam"}]'' \<and>
      JSON_parse ''[{"id":1762041600000,"text":"call Sam"}]'' = Some (reminders s')) \<and>
   (\<exists>s'. deleteReminder 1762041600000 (state_after (addReminder 1762041600000 ''call Sam'' first_visit)) = Inr s' \<and>
      reminders s' = [] \<and>
      localStorage s' ''reminders'' = Some ''[]'') \<and>
   \<not> localStorage_accepts visit_without_storage ''reminders''
     (JSON_stringify [\<lparr> reminder_id = 1762041600000, reminder_text = ''call Sam'' \<rparr>]) \<and>
   (\<exists>s'. addReminder 1762041600000 ''call Sam'' visit_without_storage =
        Inl (QuotaExceededError, s') \<and>
      reminders s' = [\<lparr> reminder_id = 1762041600000, reminder_text = ''call Sam'' \<rparr>] \<and>
      localStorage s' = localStorage visit_without_storage)\<close>
proof -
  let ?r = "\<lparr> reminder_id = 1762041600000, reminder_text = ''call Sam'' \<rparr>"
  have a: "localStorage_accepts first_visit ''reminders''
      (JSON_stringify (reminders first_visit @ [?r]))"
    by (simp add: first_visit_fields)
  from write_through [where s = first_visit and now = 1762041600000 and reminderText = "''call Sam''",
      THEN conjunct1, THEN mp, OF a]
  obtain s1 where s1: "addReminder 1762041600000 ''call Sam'' first_visit = Inr s1"
    "localStorage s1 ''reminders'' = Some (JSON_stringify (reminders s1))"
    "safe_ids (reminders s1) \<longrightarrow>
       Option.bind (localStorage s1 ''reminders'') JSON_parse = Some (reminders s1)"
    by blast
  have r1: "reminders s1 = [?r]"
    using addReminder_reminders [of 1762041600000 "''call Sam''" first_visit] s1(1)
    by (simp add: state_after_def first_visit_fields)
  have safe: "safe_ids (reminders s1)"
    by (simp add: r1 safe_ids_def isSafeInteger_def)
  have acc: "localStorage_accepts s1 = localStorage_accepts first_visit"
    using s1(1)
    by (auto simp: addReminder_def saveReminders_cases Let_def renderReminders_fields
        split: if_splits)
  have first: \<open>\<exists>s'. addReminder 1762041600000 ''call Sam'' first_visit = Inr s' \<and>
      reminders s' = [?r] \<and> safe_ids (reminders s') \<and>
      localStorage s' ''reminders'' = Some ''[{"id":1762041600000,"text":"call Sam"}]'' \<and>
      JSON_parse ''[{"id":1762041600000,"text":"call Sam"}]'' = Some (reminders s')\<close>
    using s1 r1 safe by (auto simp: call_Sam_text)
  have c: "localStorage_accepts s1 ''reminders''
      (JSON_stringify (filter (\<lambda>r. reminder_id r \<noteq> 1762041600000) (reminders s1)))"
    by (simp add: acc first_visit_fields)
  from write_through [where s = s1 and i = 1762041600000,
      THEN conjunct2, THEN conjunct2, THEN conjunct1, THEN mp, OF c]
  obtain s2 where s2: "deleteReminder 1762041600000 s1 = Inr s2"
    "localStorage s2 ''reminders'' = Some (JSON_stringify (reminders s2))"
    by blast
  have r2: "reminders s2 = []"
    using deleteReminder_reminders [of 1762041600000 s1] s2(1) r1
    by (simp add: state_after_def)
  have second: \<open>\<exists>s'. deleteReminder 1762041600000
        (state_after (addReminder 1762041600000 ''call Sam'' first_visit)) = Inr s' \<and>
      reminders s' = [] \<and> localStorage s' ''reminders'' = Some ''[]''\<close>
    using s2 r2 s1(1) by (auto simp: state_after_def call_Sam_text)
  have a': "localStorage_accepts first_visit ''reminders'' (JSON_stringify [?r])"
    by (simp add: first_visit_fields)
  have n: "\<not> localStorage_accepts visit_without_storage ''reminders''
      (JSON_stringify (reminders visit_without_storage @ [?r]))"
    by (simp add: visit_without_storage_fields)
  from write_through [where s = visit_without_storage and now = 1762041600000
      and reminderText = "''call Sam''", THEN conjunct2, THEN conjunct1, THEN mp, OF n]
  have third: "\<exists>s'. addReminder 1762041600000 ''call Sam'' visit_without_storage =
        Inl (QuotaExceededError, s') \<and>
      reminders s' = [?r] \<and> localStorage s' = localStorage visit_without_storage"
    by (simp add: visit_without_storage_fields)
  have n': "\<not> localStorage_accepts visit_without_storage ''reminders'' (JSON_stringify [?r])"
    by (simp add: visit_without_storage_fields)
  from a' first second n' third show ?thesis by (simp only: r1 simp_thms)
qed

text \<open>After an add in a browser whose storage takes no write, the in-memory list has the
  new entry and nothing is stored.\<close>

theorem stale_after_refused_write_counterexample:
  "reminders (state_after (addReminder 1762041600000 ''call Sam'' visit_without_storage)) =
     [\<lparr> reminder_id = 1762041600000, reminder_text = ''call Sam'' \<rparr>] \<and>
   localStorage (state_after (addReminder 1762041600000 ''call Sam'' visit_without_storage))
     ''reminders'' = None"
  by (simp add: addReminder_def saveReminders_cases Let_def state_after_def
      visit_without_storage_fields)

text \<open>
  Claim C6, as amended. Starting from an empty reminders list, adding \<open>call Sam\<close> at a
  timestamp \<open>Date.now()\<close> can return, with the write accepted by \<open>localStorage\<close>, and
  then loading in a fresh session over the same storage succeeds, and the fresh session holds
  exactly one reminder, with the text \<open>call Sam\<close> and the id assigned when it was created.
\<close>

theorem persist_then_reload:
  assumes "reminders s = []" and "isSafeInteger now"
    and "localStorage_accepts s ''reminders''
           (JSON_stringify [\<lparr> reminder_id = now, reminder_text = ''call Sam'' \<rparr>])"
  shows "\<exists>s1 s'. addReminder now ''call Sam'' s = Inr s1 \<and>
     loadReminders (fresh_session (localStorage s1) accepts) = Some s' \<and>
     reminders s' = [\<lparr> reminder_id = now, reminder_text = ''call Sam'' \<rparr>]"
proof -
  let ?r = "\<lparr> reminder_id = now, reminder_text = ''call Sam'' \<rparr>"
  have "localStorage_accepts s ''reminders'' (JSON_stringify (reminders s @ [?r]))"
    using assms(1,3) by simp
  from addReminder_accepted [OF this] obtain s1 where
    s1: "addReminder now ''call Sam'' s = Inr s1" "reminders s1 = [?r]"
      "localStorage s1 = (localStorage s)(''reminders'' \<mapsto> JSON_stringify (reminders s1))"
    using assms(1) by auto
  have stored: "localStorage (fresh_session (localStorage s1) accepts) ''reminders'' =
      Some (JSON_stringify [?r])"
    using s1(2,3) by (simp add: fresh_session_def)
  have safe: "safe_ids [?r]"
    using assms(2) by (simp add: safe_ids_def)
  from loadReminders_stored [OF stored safe] s1(1) show ?thesis
    by (simp add: renderReminders_fields)
qed

theorem persist_then_reload_witness:
  \<open>reminders first_visit = [] \<and> isSafeInteger 1762041600000 \<and>
   localStorage_accepts first_visit ''reminders''
     (JSON_stringify [\<lparr> reminder_id = 1762041600000, reminder_text = ''call Sam'' \<rparr>]) \<and>
   (\<exists>s1 s'. addReminder 1762041600000 ''call Sam'' first_visit = Inr s1 \<and>
      loadReminders (fresh_session (localStorage s1) (localStorage_accepts first_visit)) =
        Some s' \<and>
      reminders s' = [\<lparr> reminder_id = 1762041600000, reminder_text = ''call Sam'' \<rparr>])\<close>
proof -
  have e: "reminders first_visit = []"
    by (simp add: first_visit_fields)
  have i: "isSafeInteger 1762041600000"
    by (simp add: isSafeInteger_def)
  have a: "localStorage_accepts first_visit ''reminders''
     (JSON_stringify [\<lparr> reminder_id = 1762041600000, reminder_text = ''call Sam'' \<rparr>])"
    by (simp add: first_visit_fields)
  from persist_then_reload [OF e i a, of "localStorage_accepts first_visit"] e i a
  show ?thesis by (simp only: simp_thms)
qed

text \<open>When the write of the add is refused, nothing is stored, and the fresh session
  loads no reminder.\<close>

theorem reload_after_refused_write_counterexample:
  "reminders visit_without_storage = [] \<and>
   loadReminders
     (fresh_session
        (localStorage (state_after (addReminder 1762041600000 ''call Sam'' visit_without_storage)))
        (localStorage_accepts visit_without_storage)) =
   Some visit_without_storage \<and>
   reminders visit_without_storage \<noteq>
     [\<lparr> reminder_id = 1762041600000, reminder_text = ''call Sam'' \<rparr>]"
proof -
  have l: "localStorage (state_after (addReminder 1762041600000 ''call Sam'' visit_without_storage)) =
      Map.empty"
    by (simp add: addReminder_def saveReminders_cases Let_def state_after_def
        visit_without_storage_fields)
  have f: "fresh_session Map.empty (localStorage_accepts visit_without_storage) =
      visit_without_storage"
    by (simp add: visit_without_storage_def fresh_session_def)
  show ?thesis
    by (simp add: l f) (simp add: loadReminders_def visit_without_storage_fields)
qed

end
